theory Spec2Isabelle
  imports Complex_Main
begin

section \<open>The audio analysis core of the sampler (\<open>AudioAnalysisCore\<close>)\<close>

text \<open>
  This theory embeds the analysis class of \<^verbatim>\<open>src/lib/media-library.ts\<close>
  (\<^verbatim>\<open>AudioAnalysisCore\<close>: onset detection, tempo, song structure) and settles the
  properties the specification states about it.

  Conventions of the embedding.
  \<^item> A JavaScript \<^verbatim>\<open>number\<close> that holds a measured quantity (a sample, a time in seconds,
    a sample rate, an energy) is a \<^typ>\<open>real\<close>; there is no \<^verbatim>\<open>NaN\<close> and no infinity.
    A number that the code only uses as a count or an index is a \<^typ>\<open>nat\<close> or an
    \<^typ>\<open>int\<close> (an \<^typ>\<open>int\<close> where the code can make it negative). \<^verbatim>\<open>-Infinity\<close> and
    \<^verbatim>\<open>Number.POSITIVE_INFINITY\<close>, which the code uses as "no value yet", are \<^term>\<open>None\<close>.
  \<^item> The rounding of the double-precision arithmetic is written out, with \<open>fl\<close>, in three
    places, where a value is floored right after it was computed or is compared with an
    exact one: the peak picking of \<^verbatim>\<open>detectOnsets\<close> (\<open>pickStep\<close>, \<open>pickOnsets\<close>: the onset
    times, the sample indices, \<^verbatim>\<open>minDistance\<close> in frames), the conversion of the boundary
    frames to sections (\<open>toSection\<close>), and the cosine similarity. There the product of a
    frame index and the hop size is an integer far below \<open>2 ^ 53\<close> and is exact. All other
    arithmetic (thresholds, novelty, energies, the times that \<^verbatim>\<open>detectBoundaries\<close> compares,
    progress fractions) is on the reals, without rounding.
  \<^item> A \<^verbatim>\<open>Float32Array\<close> or a \<^verbatim>\<open>number[]\<close> is a \<^typ>\<open>real list\<close>.
  \<^item> A \<^verbatim>\<open>throw\<close> is the left summand of a result \<open>error + 'a\<close>; an \<^verbatim>\<open>async\<close>
    function that rejects returns \<^term>\<open>Inl\<close>, one that resolves returns \<^term>\<open>Inr\<close>.
  \<^item> The numeric library behind \<^verbatim>\<open>this.essentia\<close> is not part of the repository. Its
    entry points are the fields of the record \<open>Essentia\<close>; each may throw. The duck-typed
    result shapes (\<^verbatim>\<open>spectrum.spectrum || spectrum.vector || spectrum\<close>) are collapsed into the
    vector they select.
  \<^item> A progress callback is modelled by the list of the values it is called with, in
    order; whether the caller supplied one is a flag of the options.
  \<^item> A division by zero, which JavaScript answers with \<^verbatim>\<open>NaN\<close> or an infinity, is 0 in HOL;
    the sample rates of the runs evaluated below are positive.
  \<^item> A yield to the host scheduler (\<^verbatim>\<open>await new Promise(...)\<close>) changes no value by itself.
    What can change while \<^verbatim>\<open>detectSongStructure\<close> is suspended is the state of the object:
    the worker calls \<^verbatim>\<open>cleanup()\<close> on the same object when a \<^verbatim>\<open>CLEANUP\<close> message arrives.
    \<open>detectSongStructureDuring\<close> takes the yield at which that happens as a parameter.
    Logging is left out.
\<close>

subsection \<open>Results, errors, the library handle\<close>

datatype error = NotInitialized | ChannelUnavailable | EssentiaFailure

record OnsetResult =
  timestamps :: "int list"
  times :: "real list"

record BPMResult =
  bpm :: real
  confidence :: "real option"

text \<open>
  The fields \<^verbatim>\<open>label\<close> and \<^verbatim>\<open>confidence\<close> of a \<^verbatim>\<open>SectionBoundary\<close> are \<open>label\<close> and
  \<open>sconfidence\<close>, the field \<^verbatim>\<open>bpm\<close> of a \<^verbatim>\<open>SongStructureResult\<close> is \<open>sbpm\<close>: a field name
  belongs to one record.
\<close>

record SectionBoundary =
  startSample :: int
  endSample :: int
  startTime :: real
  endTime :: real
  label :: string
  sconfidence :: "real option"

record SongStructureResult =
  boundaries :: "SectionBoundary list"
  sbpm :: "real option"

text \<open>What a rhythm extractor returns: each property may be absent.\<close>

datatype Rhythm = Rhythm (rbpm: "real option") (rtempo: "real option") (rconfidence: "real option")

record Essentia =
  arrayToVector :: "real list \<Rightarrow> error + real list"
  vectorToArray :: "real list \<Rightarrow> error + real list"
  Spectrum :: "real list \<Rightarrow> error + real list"
  Chromagram :: "real list \<Rightarrow> real \<Rightarrow> error + real list"
  RhythmExtractor2013 :: "real list \<Rightarrow> error + Rhythm"
  RhythmExtractor :: "real list \<Rightarrow> real \<Rightarrow> error + Rhythm"

record AudioAnalysisCore =
  essentia :: "Essentia option"
  isInitialized :: bool

text \<open>
  The shape of an \<^verbatim>\<open>AudioBuffer\<close> the class reads; \<open>blength\<close> is its field \<^verbatim>\<open>length\<close>.
  \<open>getChannelData\<close> may throw (the worker's mono buffer does for every channel but 0).
\<close>

record AudioBuffer =
  sampleRate :: real
  numberOfChannels :: nat
  blength :: nat
  duration :: real
  getChannelData :: "nat \<Rightarrow> error + real list"

definition ensureInitialized :: "AudioAnalysisCore \<Rightarrow> error + unit" where
  "ensureInitialized core =
     (if \<not> isInitialized core \<or> essentia core = None then Inl NotInitialized else Inr ())"

subsection \<open>Rounding to double precision\<close>

text \<open>
  \<open>roundEven\<close> rounds a real to the nearest integer, a tie to the even one. \<open>fl x\<close> is the
  double nearest to \<open>x\<close> (IEEE 754 binary64, round to nearest, ties to even): \<open>x\<close> is divided
  by the unit in the last place of its binade, \<open>2 powr (e - 52)\<close> with \<open>e = \<lfloor>log 2 \<bar>x\<bar>\<rfloor>\<close> and at
  least \<open>-1022\<close> (below \<open>1 / 2 ^ 1022\<close> the doubles are equally spaced), rounded to an integer
  and multiplied back. The result of \<^verbatim>\<open>+\<close>, \<^verbatim>\<open>*\<close>, \<^verbatim>\<open>/\<close> or \<^verbatim>\<open>Math.sqrt\<close> on doubles is \<open>fl\<close>
  of the exact result. There is no overflow: \<open>fl\<close> is the arithmetic of the code for results
  below \<open>2 ^ 1024\<close> in magnitude.
\<close>

definition roundEven :: "real \<Rightarrow> int" where
  "roundEven y =
     (let f = \<lfloor>y\<rfloor>
      in if y - real_of_int f < 1/2 then f
         else if 1/2 < y - real_of_int f then f + 1
         else if even f then f else f + 1)"

definition fl :: "real \<Rightarrow> real" where
  "fl x =
     (if x = 0 then 0
      else let e = max \<lfloor>log 2 \<bar>x\<bar>\<rfloor> (- 1022);
               ulp = 2 powr (real_of_int e - 52)
           in real_of_int (roundEven (x / ulp)) * ulp)"

subsection \<open>Mono mix-down\<close>

text \<open>
  \<^verbatim>\<open>audioBufferToMono\<close>: a mono buffer is returned as it is; otherwise every channel is
  added, divided by the channel count, into a zero vector of \<^verbatim>\<open>audioBuffer.length\<close> samples.
  A Web Audio buffer has \<^verbatim>\<open>length\<close> samples in every channel; the model reads
  \<open>channel ! j\<close> for \<open>j < blength\<close> and says nothing about a shorter channel.
\<close>

fun mixChannels :: "AudioBuffer \<Rightarrow> nat list \<Rightarrow> real list \<Rightarrow> error + real list" where
  "mixChannels audioBuffer [] mix = Inr mix"
| "mixChannels audioBuffer (i # rest) mix =
     (case getChannelData audioBuffer i of
        Inl e \<Rightarrow> Inl e
      | Inr channel \<Rightarrow>
          mixChannels audioBuffer rest
            (map (\<lambda>j. mix ! j + channel ! j / real (numberOfChannels audioBuffer))
               [0..<blength audioBuffer]))"

definition audioBufferToMono :: "AudioBuffer \<Rightarrow> error + real list" where
  "audioBufferToMono audioBuffer =
     (case getChannelData audioBuffer 0 of
        Inl e \<Rightarrow> Inl e
      | Inr channelData \<Rightarrow>
          if numberOfChannels audioBuffer = 1 then Inr channelData
          else mixChannels audioBuffer [0..<numberOfChannels audioBuffer]
                 (replicate (blength audioBuffer) 0))"

subsection \<open>Adaptive threshold\<close>

text \<open>
  \<^verbatim>\<open>calculateThreshold\<close>: median plus \<open>multiplier\<close> times the median absolute
  deviation, both read at index \<open>\<lfloor>length / 2\<rfloor>\<close> of the sorted values; 0 for no values.
\<close>

definition calculateThreshold :: "real list \<Rightarrow> real \<Rightarrow> real" where
  "calculateThreshold values multiplier =
     (if length values = 0 then 0
      else
        let sorted = sort values;
            median = sorted ! (length sorted div 2);
            deviations = map (\<lambda>v. \<bar>v - median\<bar>) values;
            sortedDeviations = sort deviations;
            mad = sortedDeviations ! (length sortedDeviations div 2)
        in median + multiplier * mad)"

subsection \<open>Onset detection\<close>

definition frameSize :: nat where "frameSize = 2048"
definition hopSize :: nat where "hopSize = 512"

text \<open>
  \<^verbatim>\<open>getHannWindow\<close>. The window cache only avoids recomputing the same coefficients, so the
  model computes them.
\<close>

definition getHannWindow :: "nat \<Rightarrow> real list" where
  "getHannWindow sz =
     map (\<lambda>n. 0.5 * (1 - cos ((2 * pi * real n) / (real sz - 1)))) [0..<sz]"

text \<open>Half-wave rectified spectral difference; 0 for the first frame.\<close>

definition fluxValue :: "real list option \<Rightarrow> real list \<Rightarrow> real" where
  "fluxValue previousSpectrum magnitudeArray =
     (case previousSpectrum of
        None \<Rightarrow> 0
      | Some prev \<Rightarrow>
          sum_list (map (\<lambda>(m, p). if m - p > 0 then m - p else 0) (zip magnitudeArray prev)))"

text \<open>
  The frame loop of \<^verbatim>\<open>detectOnsets\<close>:
  \<^verbatim>\<open>for (let i = 0; i <= audioVector.length - frameSize; i += hopSize)\<close>.
  Every frame that is processed appends one value to \<open>onsetFunction\<close>; a library call that
  throws ends the loop with the error.
\<close>

function onsetLoop ::
  "Essentia \<Rightarrow> real list \<Rightarrow> real list \<Rightarrow> nat \<Rightarrow> real list option \<Rightarrow> real list
     \<Rightarrow> error + real list" where
  "onsetLoop E hannWindow audioVector i previousSpectrum onsetFunction =
     (if int i \<le> int (length audioVector) - int frameSize then
        (let frameSlice = take frameSize (drop i audioVector);
             windowedFrame = map (\<lambda>(x, w). x * w) (zip frameSlice hannWindow)
         in case arrayToVector E windowedFrame of
              Inl e \<Rightarrow> Inl e
            | Inr frameVector \<Rightarrow>
               (case Spectrum E frameVector of
                  Inl e \<Rightarrow> Inl e
                | Inr spectrumVector \<Rightarrow>
                   (case vectorToArray E spectrumVector of
                      Inl e \<Rightarrow> Inl e
                    | Inr magnitudeArray \<Rightarrow>
                        onsetLoop E hannWindow audioVector (i + hopSize) (Some magnitudeArray)
                          (onsetFunction @ [fluxValue previousSpectrum magnitudeArray]))))
      else Inr onsetFunction)"
  by pat_completeness auto
termination
  by (relation "measure (\<lambda>(E, w, a, i, p, f). length a - i)") (auto simp: hopSize_def frameSize_def)

declare onsetLoop.simps [simp del]

text \<open>
  The peak picking of \<^verbatim>\<open>detectOnsets\<close> (the loop over \<open>1 \<le> i < length - 1\<close>). The state is
  \<open>(onsets, onsetTimes, lastOnsetFrame)\<close>; \<open>lastOnsetFrame\<close> starts at \<^verbatim>\<open>-Infinity\<close>.
\<close>

definition pickStep ::
  "real list \<Rightarrow> real \<Rightarrow> int \<Rightarrow> real \<Rightarrow> nat
     \<Rightarrow> int list \<times> real list \<times> nat option \<Rightarrow> int list \<times> real list \<times> nat option" where
  "pickStep onsetFunction threshold minDistanceFrames sr i st =
     (case st of (onsets, onsetTimes, lastOnsetFrame) \<Rightarrow>
        if onsetFunction ! i > threshold \<and>
           onsetFunction ! i > onsetFunction ! (i - 1) \<and>
           onsetFunction ! i > onsetFunction ! (i + 1)
        then
          if (case lastOnsetFrame of None \<Rightarrow> True
              | Some l \<Rightarrow> int i - int l \<ge> minDistanceFrames)
          then
            (let timeInSeconds = fl ((real i * real hopSize) / sr);
                 sampleIndex = \<lfloor>fl (timeInSeconds * sr)\<rfloor>
             in (onsets @ [sampleIndex], onsetTimes @ [timeInSeconds], Some i))
          else st
        else st)"

definition pickOnsets :: "real list \<Rightarrow> real \<Rightarrow> real \<Rightarrow> real \<Rightarrow> OnsetResult" where
  "pickOnsets onsetFunction sens minDist sr =
     (let threshold = calculateThreshold onsetFunction sens;
          minDistanceFrames = \<lfloor>fl (fl (minDist * sr) / real hopSize)\<rfloor>
      in case fold (pickStep onsetFunction threshold minDistanceFrames sr)
                [1..<length onsetFunction - 1] ([], [], None) of
           (onsets, onsetTimes, lastOnsetFrame) \<Rightarrow>
             \<lparr>timestamps = onsets, times = onsetTimes\<rparr>)"

text \<open>
  The options of \<^verbatim>\<open>detectOnsets\<close>, with the defaults of the destructuring. Its progress
  reports do not enter the result and are left out.
\<close>

record OnsetOptions =
  sensitivity :: "real option"
  minDistance :: "real option"

definition detectOnsets :: "AudioAnalysisCore \<Rightarrow> AudioBuffer \<Rightarrow> OnsetOptions \<Rightarrow> error + OnsetResult" where
  "detectOnsets core audioBuffer options =
     (case ensureInitialized core of
        Inl e \<Rightarrow> Inl e
      | Inr _ \<Rightarrow>
         (case audioBufferToMono audioBuffer of
            Inl e \<Rightarrow> Inl e
          | Inr audioVector \<Rightarrow>
             (case onsetLoop (the (essentia core)) (getHannWindow frameSize) audioVector 0 None [] of
                Inl e \<Rightarrow> Inl e
              | Inr onsetFunction \<Rightarrow>
                  Inr (pickOnsets onsetFunction
                         (case sensitivity options of None \<Rightarrow> 0.5 | Some s \<Rightarrow> s)
                         (case minDistance options of None \<Rightarrow> 0.05 | Some d \<Rightarrow> d)
                         (sampleRate audioBuffer)))))"

subsection \<open>Tempo\<close>

text \<open>
  JavaScript's \<^verbatim>\<open>a || b\<close> on numbers that may be absent: \<open>a\<close> when it is present and not 0.
\<close>

definition truthy :: "real option \<Rightarrow> bool" where
  "truthy v = (case v of None \<Rightarrow> False | Some x \<Rightarrow> x \<noteq> 0)"

definition rhythmBpm :: "Rhythm \<Rightarrow> real" where
  \<comment> \<open>\<^verbatim>\<open>rhythm.bpm || rhythm.tempo || 120\<close>\<close>
  "rhythmBpm rhythm =
     (if truthy (rbpm rhythm) then the (rbpm rhythm)
      else if truthy (rtempo rhythm) then the (rtempo rhythm)
      else 120)"

definition rhythmConfidence :: "Rhythm \<Rightarrow> real" where
  \<comment> \<open>\<^verbatim>\<open>rhythm.confidence || 0\<close>\<close>
  "rhythmConfidence rhythm =
     (if truthy (rconfidence rhythm) then the (rconfidence rhythm) else 0)"

text \<open>
  The nested \<^verbatim>\<open>try\<close> of \<^verbatim>\<open>detectBPM\<close>: \<^verbatim>\<open>RhythmExtractor2013\<close>, then the older
  \<^verbatim>\<open>RhythmExtractor\<close>, then the default. The result is the pair \<open>(bpm, confidence)\<close> before
  rounding.
\<close>

definition estimateTempo :: "Essentia \<Rightarrow> real list \<Rightarrow> real \<Rightarrow> real \<times> real" where
  "estimateTempo E audioVectorEssentia sr =
     (case RhythmExtractor2013 E audioVectorEssentia of
        Inr rhythm \<Rightarrow> (rhythmBpm rhythm, rhythmConfidence rhythm)
      | Inl e \<Rightarrow>
         (case RhythmExtractor E audioVectorEssentia sr of
            Inr rhythm \<Rightarrow> (rhythmBpm rhythm, rhythmConfidence rhythm)
          | Inl e2 \<Rightarrow> (120, 0)))"

text \<open>
  \<^verbatim>\<open>detectBPM\<close>. \<^verbatim>\<open>Math.round\<close> is \<^term>\<open>round\<close> (\<open>\<lfloor>x + 1/2\<rfloor>\<close>). Nothing inside the outer
  \<^verbatim>\<open>try\<close> can throw past the inner handlers, so its \<^verbatim>\<open>catch\<close> has no branch here.
\<close>

definition detectBPM :: "AudioAnalysisCore \<Rightarrow> AudioBuffer \<Rightarrow> error + BPMResult" where
  "detectBPM core audioBuffer =
     (case ensureInitialized core of
        Inl e \<Rightarrow> Inl e
      | Inr _ \<Rightarrow>
         (case audioBufferToMono audioBuffer of
            Inl e \<Rightarrow> Inl e
          | Inr audioVector \<Rightarrow>
             (case arrayToVector (the (essentia core)) audioVector of
                Inl convError \<Rightarrow> Inr \<lparr>bpm = 120, confidence = Some 0\<rparr>
              | Inr audioVectorEssentia \<Rightarrow>
                 (case estimateTempo (the (essentia core)) audioVectorEssentia
                         (sampleRate audioBuffer) of
                    (b, c) \<Rightarrow> Inr \<lparr>bpm = real_of_int (round b), confidence = Some c\<rparr>))))"

subsection \<open>Self-similarity\<close>

text \<open>
  \<^verbatim>\<open>cosineSimilarity\<close>. Its loop adds one product to each of three accumulators per index;
  \<open>sumProducts\<close> is one such accumulator, \<^verbatim>\<open>acc += x * y\<close> from 0, the product and the sum
  rounded in turn.
\<close>

definition sumProducts :: "(real \<times> real) list \<Rightarrow> real" where
  "sumProducts ps = fold (\<lambda>(x, y) acc. fl (acc + fl (x * y))) ps 0"

definition cosineSimilarity :: "real list \<Rightarrow> real list \<Rightarrow> real" where
  "cosineSimilarity a b =
     (if length a \<noteq> length b then 0
      else
        let dotProduct = sumProducts (zip a b);
            normA = sumProducts (zip a a);
            normB = sumProducts (zip b b);
            denominator = fl (fl (sqrt normA) * fl (sqrt normB))
        in if denominator = 0 then 0 else fl (dotProduct / denominator))"

definition buildSimilarityMatrix :: "real list list \<Rightarrow> real list list" where
  "buildSimilarityMatrix features =
     map (\<lambda>i. map (\<lambda>j. cosineSimilarity (features ! i) (features ! j)) [0..<length features])
       [0..<length features]"

subsection \<open>Section boundaries\<close>

text \<open>
  \<^verbatim>\<open>detectBoundaries\<close>, block by block. Frame indices are integers: the forced end boundary
  \<open>n - 1\<close> is \<open>-1\<close> for an empty matrix.
\<close>

definition noveltyAt :: "real list list \<Rightarrow> int \<Rightarrow> int \<Rightarrow> real" where
  "noveltyAt similarityMatrix kernelSize i =
     sum_list (map (\<lambda>k. sum_list (map (\<lambda>l.
         (if k * l \<ge> 0 then 1 else -1) * similarityMatrix ! nat (i + k) ! nat (i + l))
       [- kernelSize..kernelSize])) [- kernelSize..kernelSize])"

definition noveltyFunction :: "real list list \<Rightarrow> int \<Rightarrow> real list" where
  "noveltyFunction similarityMatrix kernelSize =
     map (noveltyAt similarityMatrix kernelSize)
       [kernelSize..int (length similarityMatrix) - kernelSize - 1]"

definition boundaryStep ::
  "real list \<Rightarrow> real \<Rightarrow> int \<Rightarrow> real \<Rightarrow> nat \<Rightarrow> real \<Rightarrow> real \<Rightarrow> nat \<Rightarrow> int list \<Rightarrow> int list" where
  "boundaryStep novelty threshold kernelSize sr hop dur minSec i bounds =
     (if novelty ! i > threshold \<and>
         novelty ! i > novelty ! (i - 1) \<and>
         novelty ! i > novelty ! (i + 1)
      then
        (let timeInSeconds = (real_of_int (int i + kernelSize) * real hop) / sr;
             minTime = (if length bounds > 0
                        then (real_of_int (last bounds) * real hop) / sr + minSec
                        else 0)
         in if timeInSeconds \<ge> minTime \<and> timeInSeconds < dur - minSec
            then bounds @ [int i + kernelSize]
            else bounds)
      else bounds)"

text \<open>
  The boundaries before the budget is applied: 0, the accepted novelty peaks, and the last
  frame index.
\<close>

definition candidateBoundaries ::
  "real list list \<Rightarrow> real \<Rightarrow> nat \<Rightarrow> real \<Rightarrow> real \<Rightarrow> int list" where
  "candidateBoundaries similarityMatrix sr hop dur minSec =
     (let n = int (length similarityMatrix);
          kernelSize = \<lfloor>3 * sr / real hop\<rfloor>;
          novelty = noveltyFunction similarityMatrix kernelSize;
          threshold = calculateThreshold novelty 0.3
      in fold (boundaryStep novelty threshold kernelSize sr hop dur minSec)
           [1..<length novelty - 1] [0] @ [n - 1])"

text \<open>
  The search for the smallest gap: \<open>minDist\<close> (\<^verbatim>\<open>minDistance\<close>) starts at \<^verbatim>\<open>POSITIVE_INFINITY\<close> and
  \<open>minIndex\<close> at \<open>-1\<close> (both \<^term>\<open>None\<close>); a later gap replaces the kept one only when it is
  strictly smaller.
\<close>

definition gapStep :: "int list \<Rightarrow> nat \<Rightarrow> int option \<times> nat option \<Rightarrow> int option \<times> nat option" where
  "gapStep bounds i st =
     (case st of (minDist, minIndex) \<Rightarrow>
        let distance = bounds ! (i + 1) - bounds ! i
        in if (case minDist of None \<Rightarrow> True | Some d \<Rightarrow> distance < d)
           then (Some distance, Some i)
           else st)"

definition minGapIndex :: "int list \<Rightarrow> nat option" where
  "minGapIndex bounds = snd (fold (gapStep bounds) [0..<length bounds - 1] (None, None))"

lemma gapStep_fold_bound:
  "snd (fold (gapStep bounds) [0..<m] (None, None)) = Some k \<Longrightarrow> k < m"
proof (induction m arbitrary: k)
  case 0
  then show ?case by simp
next
  case (Suc m)
  obtain d j where st: "fold (gapStep bounds) [0..<m] (None, None) = (d, j)"
    by (cases "fold (gapStep bounds) [0..<m] (None, None)") auto
  have "fold (gapStep bounds) [0..<Suc m] (None, None) = gapStep bounds m (d, j)"
    using st by simp
  with Suc.prems have "snd (gapStep bounds m (d, j)) = Some k" by simp
  then have "k = m \<or> j = Some k"
    unfolding gapStep_def by (simp add: Let_def split: if_splits)
  then show ?case using Suc.IH[of k] st by auto
qed

lemma minGapIndex_bound: "minGapIndex bounds = Some k \<Longrightarrow> k + 1 < length bounds"
  using gapStep_fold_bound[of bounds "length bounds - 1" k] by (simp add: minGapIndex_def)

text \<open>
  The budget loop: \<^verbatim>\<open>while (boundaries.length > maxSections + 1)\<close>, with
  \<^verbatim>\<open>boundaries.splice(minIndex + 1, 1)\<close> or \<^verbatim>\<open>break\<close>.
\<close>

function mergeBoundaries :: "int list \<Rightarrow> int \<Rightarrow> int list" where
  "mergeBoundaries bounds maxS =
     (if int (length bounds) > maxS + 1 then
        (case minGapIndex bounds of
           Some minIndex \<Rightarrow>
             mergeBoundaries (take (minIndex + 1) bounds @ drop (minIndex + 2) bounds) maxS
         | None \<Rightarrow> bounds)
      else bounds)"
  by pat_completeness auto
termination
  by (relation "measure (\<lambda>(bounds, maxS). length bounds)") (auto dest: minGapIndex_bound)

declare mergeBoundaries.simps [simp del]

definition toSection :: "real \<Rightarrow> nat \<Rightarrow> int \<Rightarrow> int \<Rightarrow> SectionBoundary" where
  "toSection sr hop startFrame endFrame =
     (let startT = fl ((real_of_int startFrame * real hop) / sr);
          endT = fl ((real_of_int endFrame * real hop) / sr)
      in \<lparr>startSample = \<lfloor>fl (startT * sr)\<rfloor>, endSample = \<lfloor>fl (endT * sr)\<rfloor>,
          startTime = startT, endTime = endT, label = [], sconfidence = None\<rparr>)"

definition toSections :: "real \<Rightarrow> nat \<Rightarrow> int list \<Rightarrow> SectionBoundary list" where
  "toSections sr hop bounds =
     map (\<lambda>i. toSection sr hop (bounds ! i) (bounds ! (i + 1))) [0..<length bounds - 1]"

text \<open>The parameter \<open>energyProfile\<close> is passed and never read, as in the source.\<close>

definition detectBoundaries ::
  "real list list \<Rightarrow> real list \<Rightarrow> real \<Rightarrow> nat \<Rightarrow> real \<Rightarrow> int \<Rightarrow> real \<Rightarrow> SectionBoundary list" where
  "detectBoundaries similarityMatrix energyProfile sr hop dur maxS minSec =
     toSections sr hop
       (mergeBoundaries (candidateBoundaries similarityMatrix sr hop dur minSec) maxS)"

subsection \<open>Section labels\<close>

definition digitChars :: string where "digitChars = ''0123456789''"

fun showNat :: "nat \<Rightarrow> string" where
  "showNat n = (if n < 10 then [digitChars ! n] else showNat (n div 10) @ [digitChars ! (n mod 10)])"

declare showNat.simps [simp del]

text \<open>
  The mean energy of a section as \<^verbatim>\<open>labelSections\<close> computes it: over the indices from
  \<open>\<lfloor>startTime * 44.1\<rfloor>\<close> up to, not including, the smaller of \<open>\<lfloor>endTime * 44.1\<rfloor>\<close> and the
  length of the energy profile. A section starts at a frame index that is not negative, so
  for a positive sample rate no index below 0 is read.
\<close>

definition sectionEnergy :: "real list \<Rightarrow> SectionBoundary \<Rightarrow> real" where
  "sectionEnergy energyProfile boundary =
     (let startFrame = \<lfloor>startTime boundary * 44.1\<rfloor>;
          endFrame = \<lfloor>endTime boundary * 44.1\<rfloor>;
          frames = [startFrame..min endFrame (int (length energyProfile)) - 1];
          total = sum_list (map (\<lambda>i. energyProfile ! nat i) frames);
          count = length frames
      in if count > 0 then total / real count else 0)"

definition sectionLabel :: "nat \<Rightarrow> nat \<Rightarrow> real \<Rightarrow> real \<Rightarrow> string" where
  "sectionLabel index count energy position =
     (if index = 0 \<and> position < 0.1 then ''Intro''
      else if index = count - 1 \<and> position > 0.8 then ''Outro''
      else if energy > 0.7 then ''Chorus''
      else if energy > 0.4 then ''Verse''
      else if energy < 0.3 then (if position > 0.5 then ''Bridge'' else ''Break'')
      else ''Verse'')"

definition labelSections :: "SectionBoundary list \<Rightarrow> real list \<Rightarrow> real \<Rightarrow> SectionBoundary list" where
  "labelSections bounds energyProfile dur =
     (if length bounds = 0 then bounds
      else
        let sectionEnergies = map (sectionEnergy energyProfile) bounds;
            maxEnergy = fold max sectionEnergies (hd sectionEnergies);
            normalizedEnergies = map (\<lambda>e. if maxEnergy > 0 then e / maxEnergy else 0) sectionEnergies
        in map (\<lambda>index.
                  let boundary = bounds ! index;
                      energy = normalizedEnergies ! index;
                      position = startTime boundary / dur
                  in boundary\<lparr>label := sectionLabel index (length bounds) energy position
                                         @ '' '' @ showNat (index + 1),
                               sconfidence := Some energy\<rparr>)
             [0..<length bounds])"

subsection \<open>Song structure\<close>

record StructureOptions =
  maxSections :: "int option"
  minSectionDuration :: "real option"
  onProgress :: bool

definition chunkSize :: nat where "chunkSize = 5"

definition report :: "bool \<Rightarrow> real \<Rightarrow> real list \<Rightarrow> real list" where
  \<comment> \<open>\<^verbatim>\<open>if (onProgress) onProgress(p)\<close>\<close>
  "report cb p progress = (if cb then progress @ [p] else progress)"

text \<open>
  The features of one frame that the later stages read: the chroma vector and the RMS
  energy. When \<^verbatim>\<open>arrayToVector\<close> throws, the chroma vector is the absolute value of the first
  12 samples. The MFCC vector is computed into an array that nothing reads, inside handlers
  that let no error out, and is left out.
\<close>

definition rmsEnergy :: "real list \<Rightarrow> real" where
  "rmsEnergy frame = sqrt (sum_list (map (\<lambda>x. x * x) frame) / real (length frame))"

definition frameFeatures :: "Essentia \<Rightarrow> real \<Rightarrow> real list \<Rightarrow> real list \<times> real" where
  "frameFeatures E sr frame =
     (case arrayToVector E frame of
        Inl convError \<Rightarrow>
          (map (\<lambda>j. if j < min (length frame) 12 then \<bar>frame ! j\<bar> else 0) [0..<12],
           rmsEnergy frame)
      | Inr frameVector \<Rightarrow>
          ((case Chromagram E frameVector sr of
              Inl e \<Rightarrow> replicate 12 0
            | Inr chromaResult \<Rightarrow>
               (case vectorToArray E chromaResult of
                  Inl e \<Rightarrow> replicate 12 0
                | Inr chromaArray \<Rightarrow>
                    if length chromaArray \<noteq> 12 then replicate 12 0 else chromaArray)),
           rmsEnergy frame))"

text \<open>
  \<^verbatim>\<open>cleanup\<close>: nothing for an object without a handle; otherwise the handle is released inside
  a \<^verbatim>\<open>try\<close> and, in the \<^verbatim>\<open>finally\<close>, \<^verbatim>\<open>this.essentia\<close> becomes \<^verbatim>\<open>null\<close> and
  \<^verbatim>\<open>isInitialized\<close> false. The method has no \<^verbatim>\<open>await\<close>, so a call runs to its end at once.
\<close>

definition cleanup :: "AudioAnalysisCore \<Rightarrow> AudioAnalysisCore" where
  "cleanup core =
     (if essentia core = None then core else core\<lparr>essentia := None, isInitialized := False\<rparr>)"

text \<open>
  A call on \<^verbatim>\<open>this.essentia\<close> when it is \<^verbatim>\<open>null\<close> throws: \<open>throwingEssentia\<close> is the handle
  on which every call throws. (The same value stands for a library whose every call fails.)
\<close>

definition throwingEssentia :: Essentia where
  "throwingEssentia =
     \<lparr>arrayToVector = (\<lambda>v. Inl EssentiaFailure), vectorToArray = (\<lambda>v. Inl EssentiaFailure),
      Spectrum = (\<lambda>v. Inl EssentiaFailure), Chromagram = (\<lambda>v sr. Inl EssentiaFailure),
      RhythmExtractor2013 = (\<lambda>v. Inl EssentiaFailure),
      RhythmExtractor = (\<lambda>v sr. Inl EssentiaFailure)\<rparr>"

text \<open>
  The frame loop \<^verbatim>\<open>for (let i = 0; i < numFrames; i++)\<close> yields to the scheduler before every
  frame \<open>i\<close> with \<open>i > 0\<close> and \<open>i mod chunkSize = 0\<close>. \<open>cleanupAt = Some k\<close> says that
  \<^verbatim>\<open>cleanup()\<close> is called on the object during the yield before frame \<open>k\<close>, \<open>None\<close> that it is
  not called while the loop runs. \<open>cleanedBefore cleanupAt n\<close>: the call has happened at a
  yield before a frame below \<open>n\<close>.
\<close>

definition cleanedBefore :: "nat option \<Rightarrow> nat \<Rightarrow> bool" where
  "cleanedBefore cleanupAt n =
     (case cleanupAt of None \<Rightarrow> False | Some k \<Rightarrow> 0 < k \<and> k mod chunkSize = 0 \<and> k < n)"

text \<open>
  One round of the frame loop. The state is \<open>(chromaFeatures, energyProfile, progress)\<close>;
  \<open>handleAt i\<close> is the value of \<^verbatim>\<open>this.essentia\<close> while frame \<open>i\<close> is processed.
\<close>

definition featureStep ::
  "(nat \<Rightarrow> Essentia) \<Rightarrow> real \<Rightarrow> real list \<Rightarrow> bool \<Rightarrow> int \<Rightarrow> nat
     \<Rightarrow> real list list \<times> real list \<times> real list \<Rightarrow> real list list \<times> real list \<times> real list" where
  "featureStep handleAt sr audioVector cb numFrames i st =
     (case st of (chromaFeatures, energyProfile, progress) \<Rightarrow>
        let progress' =
              (if i > 0 \<and> i mod chunkSize = 0 \<and> cb \<and> numFrames > 0
               then progress @ [0.6 * (real i / real_of_int numFrames)]
               else progress);
            start = i * hopSize;
            stop = min (start + frameSize) (length audioVector);
            frame = take (stop - start) (drop start audioVector)
        in case frameFeatures (handleAt i) sr frame of
             (chroma, energy) \<Rightarrow>
               (chromaFeatures @ [chroma], energyProfile @ [energy], progress'))"

definition extractFeaturesAt ::
  "(nat \<Rightarrow> Essentia) \<Rightarrow> real \<Rightarrow> real list \<Rightarrow> bool
     \<Rightarrow> real list list \<times> real list \<times> real list" where
  "extractFeaturesAt handleAt sr audioVector cb =
     (let numFrames = \<lfloor>(real (length audioVector) - real frameSize) / real hopSize\<rfloor>
      in fold (featureStep handleAt sr audioVector cb numFrames) [0..<nat numFrames] ([], [], []))"

text \<open>The frame loop on a handle that stays the same for every frame.\<close>

definition extractFeatures ::
  "Essentia \<Rightarrow> real \<Rightarrow> real list \<Rightarrow> bool \<Rightarrow> real list list \<times> real list \<times> real list" where
  "extractFeatures E sr audioVector cb = extractFeaturesAt (\<lambda>i. E) sr audioVector cb"

text \<open>
  \<^verbatim>\<open>detectSongStructure\<close>, with the yield at which \<^verbatim>\<open>cleanup()\<close> is called. The result is the
  list of progress values reported, in order, and the outcome of the promise. The
  initialisation check and the mix-down are outside the \<^verbatim>\<open>try\<close>. Inside it every library
  call of the frame loop is in a handler of its own, so only \<^verbatim>\<open>detectBPM\<close> can reject, and
  it does when the object has been cleaned up in the meantime; the \<^verbatim>\<open>catch\<close> reports 1.0 and
  throws the error again.
\<close>

definition detectSongStructureDuring ::
  "nat option \<Rightarrow> AudioAnalysisCore \<Rightarrow> AudioBuffer \<Rightarrow> StructureOptions
     \<Rightarrow> real list \<times> (error + SongStructureResult)" where
  "detectSongStructureDuring cleanupAt core audioBuffer options =
     (case ensureInitialized core of
        Inl e \<Rightarrow> ([], Inl e)
      | Inr _ \<Rightarrow>
         (case audioBufferToMono audioBuffer of
            Inl e \<Rightarrow> ([], Inl e)
          | Inr audioVector \<Rightarrow>
             (let maxS = (case maxSections options of None \<Rightarrow> 8 | Some m \<Rightarrow> m);
                  minSec = (case minSectionDuration options of None \<Rightarrow> 5 | Some d \<Rightarrow> d);
                  cb = onProgress options;
                  sr = sampleRate audioBuffer;
                  dur = duration audioBuffer;
                  numFrames = \<lfloor>(real (length audioVector) - real frameSize) / real hopSize\<rfloor>;
                  handleAt = (\<lambda>i. if cleanedBefore cleanupAt (i + 1) then throwingEssentia
                                    else the (essentia core));
                  coreAfterLoop = (if cleanedBefore cleanupAt (nat numFrames) then cleanup core
                                   else core)
              in case extractFeaturesAt handleAt sr audioVector cb of
                   (chromaFeatures, energyProfile, p1) \<Rightarrow>
                     (let p2 = report cb 0.6 p1;
                          similarityMatrix = buildSimilarityMatrix chromaFeatures;
                          p3 = report cb 0.8 p2;
                          bounds = detectBoundaries similarityMatrix energyProfile sr hopSize
                                     dur maxS minSec;
                          p4 = report cb 0.9 p3;
                          labeledBoundaries = labelSections bounds energyProfile dur;
                          p5 = report cb 0.95 p4
                      in case detectBPM coreAfterLoop audioBuffer of
                           Inr bpmResult \<Rightarrow>
                             (report cb 1.0 p5,
                              Inr \<lparr>boundaries = labeledBoundaries, sbpm = Some (bpm bpmResult)\<rparr>)
                         | Inl err \<Rightarrow> (report cb 1.0 p5, Inl err)))))"

text \<open>\<^verbatim>\<open>detectSongStructure\<close> on an object that nothing else touches during the call.\<close>

definition detectSongStructure ::
  "AudioAnalysisCore \<Rightarrow> AudioBuffer \<Rightarrow> StructureOptions
     \<Rightarrow> real list \<times> (error + SongStructureResult)" where
  "detectSongStructure core audioBuffer options =
     detectSongStructureDuring None core audioBuffer options"

subsection \<open>Concrete handles and buffers\<close>

text \<open>
  \<^verbatim>\<open>createMonoBuffer\<close> of the analysis worker: the buffer shape every request of the worker
  is analysed through. The duration defaults to \<open>length / sampleRate\<close>.
\<close>

definition createMonoBuffer :: "real list \<Rightarrow> real \<Rightarrow> real option \<Rightarrow> AudioBuffer" where
  "createMonoBuffer samples sr dur =
     \<lparr>sampleRate = sr, numberOfChannels = 1, blength = length samples,
      duration = (case dur of None \<Rightarrow> real (length samples) / sr | Some d \<Rightarrow> d),
      getChannelData = (\<lambda>channel. if channel \<noteq> 0 then Inl ChannelUnavailable else Inr samples)\<rparr>"

text \<open>
  Two library handles for the examples. With \<open>throwingEssentia\<close> (above) the analysis runs
  on its own fallbacks. \<open>stubEssentia\<close> converts vectors unchanged and answers every other
  call with a fixed, well-formed value: a one-bin spectrum, a zero chroma vector and a tempo
  of 128.4.
\<close>

definition stubEssentia :: Essentia where
  "stubEssentia =
     \<lparr>arrayToVector = (\<lambda>v. Inr v), vectorToArray = (\<lambda>v. Inr v),
      Spectrum = (\<lambda>v. Inr [0]), Chromagram = (\<lambda>v sr. Inr (replicate 12 0)),
      RhythmExtractor2013 = (\<lambda>v. Inr (Rhythm (Some 128.4) None (Some 3.5))),
      RhythmExtractor = (\<lambda>v sr. Inl EssentiaFailure)\<rparr>"

definition readyCore :: "Essentia \<Rightarrow> AudioAnalysisCore" where
  "readyCore E = \<lparr>essentia = Some E, isInitialized = True\<rparr>"

text \<open>Three chroma vectors for the examples.\<close>

definition chromaA :: "real list" where "chromaA = [1, 0, 0, 0, 0, 0, 0, 0, 0, 0, 0, 0]"
definition chromaB :: "real list" where "chromaB = [0, 0, 0, 0, 1, 0, 0, 0, 0, 0, 0, 0]"
definition chromaZ :: "real list" where "chromaZ = [0, 0, 0, 0, 0, 0, 0, 0, 0, 0, 0, 0]"

text \<open>A chroma vector with the same value in every pitch class.\<close>

definition uniformChroma :: "real \<Rightarrow> real list" where
  "uniformChroma v = [v, v, v, v, v, v, v, v, v, v, v, v]"

text \<open>
  Three buffers for the examples. \<open>blockBuffer\<close> is ten blocks of 512 samples (5120 samples,
  six frames for the structure pass). A block is \<open>block c t\<close>: its first sample is \<open>c\<close>, the
  next 11 are 0, then \<open>64 * t\<close> samples of amplitude \<open>1/8\<close>, then silence. The first sample
  decides the fallback chroma vector of the frame that starts with the block; the samples
  of amplitude \<open>1/8\<close> make the squares of every frame add up to 8, so that each frame has the
  RMS energy \<open>1/16\<close>. All these values are single-precision numbers, and the sums the code
  forms of them are exact. \<open>stepBuffer\<close> is 2048 silent samples, 512 samples of amplitude 1
  and 1536 silent samples (4096 samples, four frames). \<open>blockMatrix\<close> is the
  self-similarity matrix of the fallback chroma vectors of \<open>blockBuffer\<close>.
\<close>

definition block :: "real \<Rightarrow> nat \<Rightarrow> real list" where
  "block c t = c # replicate 11 0 @ replicate (64 * t) (1/8) @ replicate (500 - 64 * t) 0"

definition blockBuffer :: "real list" where
  "blockBuffer = block 0 1 @ block 0 2 @ block 1 1 @ block 1 2 @ block 1 0
                   @ block 0 2 @ block 0 2 @ block 0 3 @ block 0 1 @ block 0 0"

definition stepBuffer :: "real list" where
  "stepBuffer = replicate 2048 0 @ replicate 512 1 @ replicate 1536 0"

definition blockMatrix :: "real list list" where
  "blockMatrix = [[0, 0, 0, 0, 0, 0], [0, 0, 0, 0, 0, 0], [0, 0, 1, 1, 1, 0],
                  [0, 0, 1, 1, 1, 0], [0, 0, 1, 1, 1, 0], [0, 0, 0, 0, 0, 0]]"

definition defaultStructureOptions :: StructureOptions where
  "defaultStructureOptions = \<lparr>maxSections = None, minSectionDuration = None, onProgress = True\<rparr>"

subsection \<open>The specification's section energy\<close>

text \<open>
  The specification and C9 describe the confidence of a section as the mean RMS energy over
  the section's own frame range, normalised by the largest such mean. These two definitions
  follow those words, for comparison with \<open>sectionEnergy\<close> and \<open>labelSections\<close>: frame \<open>k\<close>
  starts at sample \<open>k * hop\<close>, so the frames of a section are those from
  \<open>startSample / hop\<close> up to, not including, \<open>endSample / hop\<close>.
\<close>

definition spec_sectionEnergy :: "real list \<Rightarrow> nat \<Rightarrow> SectionBoundary \<Rightarrow> real" where
  "spec_sectionEnergy energyProfile hop boundary =
     (let frames = [nat (startSample boundary) div hop..<
                    min (nat (endSample boundary) div hop) (length energyProfile)]
      in if frames = [] then 0
         else sum_list (map (\<lambda>k. energyProfile ! k) frames) / real (length frames))"

definition spec_confidence :: "real list \<Rightarrow> nat \<Rightarrow> SectionBoundary list \<Rightarrow> nat \<Rightarrow> real" where
  "spec_confidence energyProfile hop bounds i =
     (let energies = map (spec_sectionEnergy energyProfile hop) bounds;
          maxEnergy = fold max energies (hd energies)
      in if maxEnergy > 0 then energies ! i / maxEnergy else 0)"

subsection \<open>Single-precision values\<close>

text \<open>
  The components of a chroma vector are elements of a \<^verbatim>\<open>Float32Array\<close> (the library's
  chromagram, or the absolute value of a sample) or 0. \<open>singlePrecision x\<close> says that \<open>x\<close> is
  0 or has a magnitude in the range of the single-precision numbers, from \<open>1 / 2 ^ 149\<close> to below
  \<open>2 ^ 128\<close>.
\<close>

definition singlePrecision :: "real \<Rightarrow> bool" where
  "singlePrecision x = (x = 0 \<or> (1 / 2 ^ 149 \<le> \<bar>x\<bar> \<and> \<bar>x\<bar> < 2 ^ 128))"

section \<open>Properties\<close>

subsection \<open>Rounding\<close>

lemma fl_zero [simp]: "fl 0 = 0" by (simp add: fl_def)

lemma roundEven_near: "\<bar>y - real_of_int m\<bar> < 1/2 \<Longrightarrow> roundEven y = m"
proof -
  assume a: "\<bar>y - real_of_int m\<bar> < 1/2"
  show ?thesis
  proof (cases "real_of_int m \<le> y")
    case True
    then have "\<lfloor>y\<rfloor> = m" using a by linarith
    then show ?thesis using a True by (simp add: roundEven_def Let_def)
  next
    case False
    then have "\<lfloor>y\<rfloor> = m - 1" using a by linarith
    then show ?thesis using a False by (auto simp add: roundEven_def Let_def)
  qed
qed

lemma roundEven_error: "\<bar>real_of_int (roundEven y) - y\<bar> \<le> 1/2"
  unfolding roundEven_def Let_def by (auto; linarith)

lemma roundEven_ge: "real_of_int n \<le> y \<Longrightarrow> n \<le> roundEven y"
proof -
  assume "real_of_int n \<le> y"
  then have "n \<le> \<lfloor>y\<rfloor>" by (simp add: le_floor_iff)
  then show ?thesis unfolding roundEven_def Let_def by auto
qed

lemma powr_minus_nat: "(2::real) powr (- real k) = 1 / 2 ^ k"
  by (simp add: powr_minus_divide powr_realpow)

lemma fl_exponent:
  assumes "0 < x" and "2 ^ 52 \<le> x * 2 ^ k" and "x * 2 ^ k < 2 ^ 53"
  shows "\<lfloor>log 2 \<bar>x\<bar>\<rfloor> = 52 - int k"
proof -
  have p1: "(2::real) powr real_of_int (52 - int k) = 2 ^ 52 / 2 ^ k"
    by (simp add: powr_diff powr_realpow)
  have p2: "(2::real) powr real_of_int (52 - int k + 1) = 2 ^ 53 / 2 ^ k"
  proof -
    have "real_of_int (52 - int k + 1) = 53 - real k" by simp
    then show ?thesis by (simp add: powr_diff powr_realpow)
  qed
  have "2 ^ 52 / 2 ^ k \<le> x" using assms(2) by (simp add: field_simps)
  moreover have "x < 2 ^ 53 / 2 ^ k" using assms(3) by (simp add: field_simps)
  ultimately have "\<lfloor>log 2 x\<rfloor> = 52 - int k"
    using assms(1) p1 p2 floor_log_eq_powr_iff [of x 2 "52 - int k"] by simp
  then show ?thesis using assms(1) by simp
qed

lemma fl_pos:
  assumes "0 < x" and "2 ^ 52 \<le> x * 2 ^ k" and "x * 2 ^ k < 2 ^ 53" and "k \<le> 1074"
  shows "fl x = real_of_int (roundEven (x * 2 ^ k)) / 2 ^ k"
proof -
  have e: "\<lfloor>log 2 \<bar>x\<bar>\<rfloor> = 52 - int k" using assms(1-3) by (rule fl_exponent)
  have m: "max (52 - int k) (- 1022) = 52 - int k" using assms(4) by simp
  have "real_of_int (52 - int k) - 52 = - real k" by simp
  then have u: "(2::real) powr (real_of_int (52 - int k) - 52) = 1 / 2 ^ k"
    using powr_minus_nat [of k] by simp
  have "fl x = real_of_int (roundEven (x / 2 powr (real_of_int (52 - int k) - 52)))
                 * 2 powr (real_of_int (52 - int k) - 52)"
    unfolding fl_def Let_def e m using assms(1) by simp
  then show ?thesis unfolding u by simp
qed

lemma fl_one [simp]: "fl 1 = 1"
  using fl_pos [of 1 52] by (simp add: roundEven_def)

lemma fl_nonneg: "0 \<le> x \<Longrightarrow> 0 \<le> fl x"
proof (cases "x = 0")
  case True then show ?thesis by simp
next
  case False
  assume "0 \<le> x"
  define u where "u = (2::real) powr (real_of_int (max \<lfloor>log 2 \<bar>x\<bar>\<rfloor> (- 1022)) - 52)"
  have upos: "0 < u" by (simp add: u_def)
  have "real_of_int 0 \<le> x / u" using \<open>0 \<le> x\<close> upos by simp
  then have "0 \<le> roundEven (x / u)" by (rule roundEven_ge)
  then have "0 \<le> real_of_int (roundEven (x / u)) * u" using upos by simp
  then show ?thesis using False by (simp add: fl_def Let_def u_def)
qed

text \<open>In the normal range the result differs from the argument by at most half a unit in the last place.\<close>

lemma fl_error:
  assumes "1 / 2 ^ 1022 \<le> \<bar>x\<bar>"
  shows "\<bar>fl x - x\<bar> \<le> \<bar>x\<bar> / 2 ^ 53"
proof -
  have nz: "x \<noteq> 0" using assms by auto
  define e where "e = \<lfloor>log 2 \<bar>x\<bar>\<rfloor>"
  define u where "u = (2::real) powr (real_of_int e - 52)"
  have "2 powr (- real 1022) \<le> \<bar>x\<bar>" using assms by (simp only: powr_minus_nat)
  then have "- real 1022 \<le> log 2 \<bar>x\<bar>" using nz by (simp add: le_log_iff)
  then have "- 1022 \<le> e" unfolding e_def by (simp add: le_floor_iff)
  then have m: "max e (- 1022) = e" by simp
  have upos: "0 < u" by (simp add: u_def)
  have flx: "fl x = real_of_int (roundEven (x / u)) * u"
    using nz m by (simp add: fl_def Let_def e_def[symmetric] u_def)
  have "fl x - x = (real_of_int (roundEven (x / u)) - x / u) * u"
    using upos by (simp add: flx field_simps)
  then have "\<bar>fl x - x\<bar> = \<bar>real_of_int (roundEven (x / u)) - x / u\<bar> * u"
    using upos by (simp add: abs_mult)
  also have "\<dots> \<le> 1/2 * u"
    using roundEven_error [of "x / u"] upos by (intro mult_right_mono) auto
  finally have b1: "\<bar>fl x - x\<bar> \<le> u / 2" by simp
  have "real_of_int e \<le> log 2 \<bar>x\<bar>" by (simp add: e_def)
  then have "2 powr real_of_int e \<le> \<bar>x\<bar>"
    using nz by (simp add: le_log_iff)
  moreover have "u = 2 powr real_of_int e / 2 ^ 52"
    by (simp add: u_def powr_diff)
  ultimately have "u / 2 \<le> \<bar>x\<bar> / 2 ^ 53" by simp
  then show ?thesis using b1 by linarith
qed

text \<open>A power of two is a double, so rounding does not go below it.\<close>

lemma fl_ge_power:
  assumes "1 / 2 ^ m \<le> x" and "m \<le> 1022"
  shows "1 / 2 ^ m \<le> fl x"
proof -
  have "0 < 1 / (2::real) ^ m" by simp
  then have xpos: "0 < x" using assms(1) by linarith
  define e where "e = max \<lfloor>log 2 \<bar>x\<bar>\<rfloor> (- 1022)"
  define u where "u = (2::real) powr (real_of_int e - 52)"
  have upos: "0 < u" by (simp add: u_def)
  have "2 powr (- real m) \<le> x" using assms(1) by (simp only: powr_minus_nat)
  then have "- real m \<le> log 2 x" using xpos by (simp add: le_log_iff)
  then have "- int m \<le> \<lfloor>log 2 x\<rfloor>" by (simp add: le_floor_iff)
  then have em: "- int m \<le> e" and ef: "e = \<lfloor>log 2 x\<rfloor>"
    using xpos assms(2) by (auto simp: e_def)
  have "real_of_int e \<le> log 2 x" by (simp add: ef)
  then have xe: "2 powr real_of_int e \<le> x" using xpos by (simp add: le_log_iff)
  have ue: "u * 2 ^ 52 = 2 powr real_of_int e" by (simp add: u_def powr_diff)
  have "real_of_int (2 ^ 52) \<le> x / u"
    using xe ue upos by (simp add: field_simps)
  then have "2 ^ 52 \<le> roundEven (x / u)" by (rule roundEven_ge)
  then have "real_of_int (2 ^ 52) \<le> real_of_int (roundEven (x / u))" by linarith
  then have "2 ^ 52 * u \<le> real_of_int (roundEven (x / u)) * u"
    using upos by simp
  moreover have "fl x = real_of_int (roundEven (x / u)) * u"
    using xpos by (simp add: fl_def Let_def e_def u_def)
  ultimately have "2 powr real_of_int e \<le> fl x" using ue by (simp add: mult.commute)
  moreover have "2 powr (- real m) \<le> 2 powr real_of_int e"
    using em by (intro powr_mono) auto
  moreover have "(2::real) powr (- real m) = 1 / 2 ^ m" by (rule powr_minus_nat)
  ultimately show ?thesis by linarith
qed


text \<open>The doubles that the runs below meet.\<close>

lemma fl_time_1_44100: "fl (128 / 11025) = 6692696262570359 / 576460752303423488"
  using fl_pos [of "128 / 11025" 59] by (simp add: roundEven_def)

lemma fl_sample_1_44100: "fl (73786976294838207975 / 144115188075855872) = 512"
  using fl_pos [of "73786976294838207975 / 144115188075855872" 43] by (simp add: roundEven_def)

lemma fl_time_3_44100: "fl (128 / 3675) = 5019522196927769 / 144115188075855872"
  using fl_pos [of "128 / 3675" 57] by (simp add: roundEven_def)

lemma fl_sample_3_44100: "fl (55340232221128653225 / 36028797018963968) = 1536"
  using fl_pos [of "55340232221128653225 / 36028797018963968" 42] by (simp add: roundEven_def)

lemma fl_time_5_44100: "fl (128 / 2205) = 8365870328212949 / 144115188075855872"
  using fl_pos [of "128 / 2205" 57] by (simp add: roundEven_def)

lemma fl_sample_5_44100: "fl (92233720368547762725 / 36028797018963968) = 2560"
  using fl_pos [of "92233720368547762725 / 36028797018963968" 41] by (simp add: roundEven_def)

lemma fl_time_3_200: "fl (192 / 25) = 1080863910568919 / 140737488355328"
  using fl_pos [of "192 / 25" 50] by (simp add: roundEven_def)

lemma fl_sample_3_200: "fl (27021597764222975 / 17592186044416) = 1536"
  using fl_pos [of "27021597764222975 / 17592186044416" 42] by (simp add: roundEven_def)

lemma fl_time_5_200: "fl (64 / 5) = 3602879701896397 / 281474976710656"
  using fl_pos [of "64 / 5" 49] by (simp add: roundEven_def)

lemma fl_sample_5_200: "fl (90071992547409925 / 35184372088832) = 2560"
  using fl_pos [of "90071992547409925 / 35184372088832" 41] by (simp add: roundEven_def)

lemma fl_time_15_44100: "fl (128 / 735) = 6274402746159711 / 36028797018963968"
  using fl_pos [of "128 / 735" 55] by (simp add: roundEven_def)

lemma fl_sample_15_44100: "fl (69175290276410813775 / 9007199254740992) = 8444249301319679 / 1099511627776"
  using fl_pos [of "69175290276410813775 / 9007199254740992" 40] by (simp add: roundEven_def)

lemma fl_2205: "fl 2205 = 2205"
  using fl_pos [of 2205 41] by (simp add: roundEven_def)

lemma fl_2205_512: "fl (2205 / 512) = 2205 / 512"
  using fl_pos [of "2205 / 512" 50] by (simp add: roundEven_def)

subsection \<open>Onsets\<close>

lemma onsetLoop_length:
  "onsetLoop E w a i p f = Inr r \<Longrightarrow>
   length r = length f +
     (if int i \<le> int (length a) - 2048 then (length a - 2048 - i) div 512 + 1 else 0)"
proof (induction E w a i p f rule: onsetLoop.induct)
  case (1 E w a i p f)
  show ?case
  proof (cases "int i \<le> int (length a) - int frameSize")
    case False
    with "1.prems" show ?thesis
      by (subst (asm) onsetLoop.simps) (simp add: frameSize_def)
  next
    case True
    from "1.prems" True obtain fv sv ma where
      s: "arrayToVector E (map (\<lambda>(x, w). x * w) (zip (take frameSize (drop i a)) w)) = Inr fv"
         "Spectrum E fv = Inr sv" "vectorToArray E sv = Inr ma"
      and rec: "onsetLoop E w a (i + hopSize) (Some ma) (f @ [fluxValue p ma]) = Inr r"
      by (subst (asm) onsetLoop.simps) (auto simp: Let_def split: sum.splits)
    have "length r = length (f @ [fluxValue p ma]) +
       (if int (i + hopSize) \<le> int (length a) - 2048
        then (length a - 2048 - (i + hopSize)) div 512 + 1 else 0)"
      using "1.IH"[OF True refl refl s(1) s(2) s(3) rec] .
    moreover have "(length a - 2048 - i) div 512 =
       (if int (i + 512) \<le> int (length a) - 2048
        then (length a - 2048 - (i + 512)) div 512 + 1 else 0)"
      using True by (auto simp: frameSize_def)
    ultimately show ?thesis using True by (simp add: hopSize_def frameSize_def)
  qed
qed

text \<open>
  C1. The claim keeps every two neighbouring onset times at least \<open>minDistance\<close> seconds
  apart, and so does the comment of the option (\<^verbatim>\<open>minimum time between onsets in seconds\<close>).
  The code compares frame indices with \<open>\<lfloor>minDistance * sampleRate / hopSize\<rfloor>\<close>: the distance
  is rounded down to whole frames. For the onset function \<open>[0, 5, 0, 0, 0, 5, 0]\<close> at
  44100 Hz and the default \<open>minDistance\<close> of 0.05 s that is 4 frames. Frames 1 and 5 are both
  accepted, at the times 0.011609977324263039 and 0.058049886621315196 (the doubles nearest
  to \<open>512 / 44100\<close> and \<open>2560 / 44100\<close>), which are less than 0.05 s apart. The two arrays
  do have the same length and order, and the times increase.
\<close>

theorem onsets_closer_than_minDistance:
  "pickOnsets [0, 5, 0, 0, 0, 5, 0] (1/2) (1/20) 44100
     = \<lparr>timestamps = [512, 2560], times = [6692696262570359 / 576460752303423488, 8365870328212949 / 144115188075855872]\<rparr>
   \<and> \<lfloor>fl (fl (1/20 * 44100) / real hopSize)\<rfloor> = 4
   \<and> (8365870328212949 / 144115188075855872 :: real) - 6692696262570359 / 576460752303423488 < 1 / 20"
  by (simp add: pickOnsets_def calculateThreshold_def pickStep_def hopSize_def Let_def upt_rec
        fl_2205 fl_2205_512 fl_time_1_44100 fl_time_3_44100 fl_time_5_44100 fl_sample_1_44100 fl_sample_3_44100 fl_sample_5_44100)

text \<open>The threshold never falls when the multiplier grows.\<close>

lemma calculateThreshold_mono:
  assumes "s \<le> s'"
  shows "calculateThreshold f s \<le> calculateThreshold f s'"
proof (cases "f = []")
  case True
  then show ?thesis by (simp add: calculateThreshold_def)
next
  case False
  let ?median = "sort f ! (length (sort f) div 2)"
  let ?devs = "sort (map (\<lambda>v. \<bar>v - ?median\<bar>) f)"
  let ?mad = "?devs ! (length ?devs div 2)"
  from False have "length ?devs div 2 < length ?devs" by simp
  then have "?mad \<in> set ?devs" by (rule nth_mem)
  then have "0 \<le> ?mad" by auto
  then have "s * ?mad \<le> s' * ?mad" using assms by (rule mult_right_mono[rotated])
  then show ?thesis using False by (simp add: calculateThreshold_def Let_def)
qed

text \<open>
  C2. The claim says that a higher sensitivity lowers the threshold and never gives fewer
  onsets. \<^verbatim>\<open>detectOnsets\<close> passes the sensitivity itself as the multiplier of the median
  absolute deviation, so a higher sensitivity never lowers the threshold
  (\<open>calculateThreshold_mono\<close>) and raises it whenever the deviation is not 0. For the onset function
  \<open>[0, 2, 0, 4, 1, 5, 0]\<close> (median 1, deviation 1) the threshold is 1 at sensitivity 0 and 2
  at sensitivity 1, and the code returns two onsets at sensitivity 0 and one at sensitivity 1.
\<close>

theorem sensitivity_raises_threshold:
  "calculateThreshold [0, 2, 0, 4, 1, 5, 0] 0 = 1
   \<and> calculateThreshold [0, 2, 0, 4, 1, 5, 0] 1 = 2
   \<and> pickOnsets [0, 2, 0, 4, 1, 5, 0] 0 (1/20) 44100
        = \<lparr>timestamps = [512, 2560], times = [6692696262570359 / 576460752303423488, 8365870328212949 / 144115188075855872]\<rparr>
   \<and> pickOnsets [0, 2, 0, 4, 1, 5, 0] 1 (1/20) 44100
        = \<lparr>timestamps = [1536], times = [5019522196927769 / 144115188075855872]\<rparr>"
  by (simp add: pickOnsets_def calculateThreshold_def pickStep_def hopSize_def Let_def upt_rec
        fl_2205 fl_2205_512 fl_time_1_44100 fl_time_3_44100 fl_time_5_44100 fl_sample_1_44100 fl_sample_3_44100 fl_sample_5_44100)

text \<open>
  C10. On an initialised core, a buffer whose mono samples are fewer than \<open>frameSize\<close>
  makes \<^verbatim>\<open>detectOnsets\<close> resolve with two empty arrays: the frame loop processes no frame,
  the threshold of the empty onset function is 0, and the peak picking accepts nothing.
\<close>

theorem detectOnsets_short_buffer:
  assumes "ensureInitialized core = Inr ()"
    and "audioBufferToMono audioBuffer = Inr audioVector"
    and "length audioVector < frameSize"
  shows "onsetLoop (the (essentia core)) (getHannWindow frameSize) audioVector 0 None [] = Inr []
     \<and> calculateThreshold [] s = 0
     \<and> detectOnsets core audioBuffer options = Inr \<lparr>timestamps = [], times = []\<rparr>"
proof -
  have l: "onsetLoop (the (essentia core)) (getHannWindow frameSize) audioVector 0 None [] = Inr []"
    using assms(3) by (subst onsetLoop.simps) simp
  have t: "calculateThreshold [] s = 0" for s
    by (simp add: calculateThreshold_def)
  have "pickOnsets [] s d sr = \<lparr>timestamps = [], times = []\<rparr>" for s d sr
    by (simp add: pickOnsets_def Let_def)
  then show ?thesis using assms(1,2) l t by (simp add: detectOnsets_def)
qed

theorem detectOnsets_short_buffer_witness:
  "ensureInitialized (readyCore stubEssentia) = Inr ()
   \<and> audioBufferToMono (createMonoBuffer [1/10, - 1/5, 3/10] 44100 None) = Inr [1/10, - 1/5, 3/10]
   \<and> length [1/10, - 1/5, 3/10 :: real] < frameSize
   \<and> detectOnsets (readyCore stubEssentia) (createMonoBuffer [1/10, - 1/5, 3/10] 44100 None)
        \<lparr>sensitivity = None, minDistance = None\<rparr> = Inr \<lparr>timestamps = [], times = []\<rparr>"
proof -
  have a: "ensureInitialized (readyCore stubEssentia) = Inr ()"
    by (simp add: ensureInitialized_def readyCore_def)
  have b: "audioBufferToMono (createMonoBuffer [1/10, - 1/5, 3/10] 44100 None)
             = Inr [1/10, - 1/5, 3/10]"
    by (simp add: audioBufferToMono_def createMonoBuffer_def)
  have c: "length [1/10, - 1/5, 3/10 :: real] < frameSize" by (simp add: frameSize_def)
  from detectOnsets_short_buffer[OF a b c] a b c show ?thesis by simp
qed

subsection \<open>Self-similarity matrix\<close>

lemma sumProducts_commute: "sumProducts (zip a b) = sumProducts (zip b a)"
proof -
  have "fold (\<lambda>(x, y) acc. fl (acc + fl (x * y))) (zip a b) s
      = fold (\<lambda>(x, y) acc. fl (acc + fl (x * y))) (zip b a) s" for s
  proof (induction a arbitrary: b s)
    case Nil
    show ?case by simp
  next
    case (Cons x a)
    show ?case by (cases b) (simp_all add: Cons.IH mult.commute)
  qed
  then show ?thesis by (simp add: sumProducts_def)
qed

lemma cosineSimilarity_commute: "cosineSimilarity a b = cosineSimilarity b a"
  by (simp add: cosineSimilarity_def Let_def sumProducts_commute [of a b] mult.commute)

lemma sumProducts_zeros:
  "\<forall>x\<in>set a. x = 0 \<Longrightarrow> sumProducts (zip a b) = 0"
proof -
  have "\<forall>x\<in>set a. x = 0 \<Longrightarrow> fold (\<lambda>(x, y) acc. fl (acc + fl (x * y))) (zip a b) 0 = 0"
  proof (induction a arbitrary: b)
    case Nil
    show ?case by simp
  next
    case (Cons x a)
    show ?case using Cons by (cases b) simp_all
  qed
  then show "\<forall>x\<in>set a. x = 0 \<Longrightarrow> sumProducts (zip a b) = 0" by (simp add: sumProducts_def)
qed

lemma cosineSimilarity_zero:
  assumes "(\<forall>x\<in>set a. x = 0) \<or> (\<forall>x\<in>set b. x = 0)"
  shows "cosineSimilarity a b = 0"
proof -
  have "sumProducts (zip a a) = 0 \<or> sumProducts (zip b b) = 0"
    using assms sumProducts_zeros by blast
  then show ?thesis by (auto simp: cosineSimilarity_def Let_def)
qed

lemma squares_fold_nonneg:
  "0 \<le> s \<Longrightarrow> 0 \<le> fold (\<lambda>(x, y) acc. fl (acc + fl (x * y))) (zip a a) s"
proof (induction a arbitrary: s)
  case Nil
  then show ?case by simp
next
  case (Cons x a)
  have "0 \<le> fl (x * x)" by (rule fl_nonneg) simp
  then have "0 \<le> fl (s + fl (x * x))" using Cons.prems by (intro fl_nonneg) simp
  then show ?case using Cons.IH by simp
qed

lemma squares_fold_keep:
  "1 / 2 ^ 298 \<le> s \<Longrightarrow> 1 / 2 ^ 298 \<le> fold (\<lambda>(x, y) acc. fl (acc + fl (x * y))) (zip a a) s"
proof (induction a arbitrary: s)
  case Nil
  then show ?case by simp
next
  case (Cons x a)
  have "0 \<le> fl (x * x)" by (rule fl_nonneg) simp
  then have "1 / 2 ^ 298 \<le> s + fl (x * x)" using Cons.prems by linarith
  then have "1 / 2 ^ 298 \<le> fl (s + fl (x * x))" by (rule fl_ge_power) simp
  then show ?case using Cons.IH by simp
qed

lemma squares_fold_reach:
  assumes "0 \<le> s" and "\<exists>x\<in>set a. x \<noteq> 0" and "\<forall>x\<in>set a. singlePrecision x"
  shows "1 / 2 ^ 298 \<le> fold (\<lambda>(x, y) acc. fl (acc + fl (x * y))) (zip a a) s"
  using assms
proof (induction a arbitrary: s)
  case Nil
  then show ?case by simp
next
  case (Cons x a)
  show ?case
  proof (cases "x = 0")
    case True
    then have "\<exists>x\<in>set a. x \<noteq> 0" using Cons.prems(2) by auto
    moreover have "0 \<le> fl s" using Cons.prems(1) by (rule fl_nonneg)
    ultimately show ?thesis using Cons.IH[of "fl s"] Cons.prems(3) True by simp
  next
    case False
    then have "1 / 2 ^ 149 \<le> \<bar>x\<bar>" using Cons.prems(3) by (auto simp: singlePrecision_def)
    then have "(1 / 2 ^ 149) * (1 / 2 ^ 149) \<le> \<bar>x\<bar> * \<bar>x\<bar>"
      by (intro mult_mono) auto
    then have "1 / 2 ^ 298 \<le> x * x" by (simp add: abs_mult_self_eq)
    then have "1 / 2 ^ 298 \<le> fl (x * x)" by (rule fl_ge_power) simp
    then have "1 / 2 ^ 298 \<le> s + fl (x * x)" using Cons.prems(1) by linarith
    then have "1 / 2 ^ 298 \<le> fl (s + fl (x * x))" by (rule fl_ge_power) simp
    then show ?thesis using squares_fold_keep[of "fl (s + fl (x * x))" a] by simp
  qed
qed

lemma sumProducts_squares_lower:
  assumes "\<exists>x\<in>set a. x \<noteq> 0" and "\<forall>x\<in>set a. singlePrecision x"
  shows "1 / 2 ^ 298 \<le> sumProducts (zip a a)"
  unfolding sumProducts_def using squares_fold_reach[OF _ assms, of 0] by simp


lemma sqrt_power_298: "sqrt (1 / 2 ^ 298) = 1 / 2 ^ 149"
  by (rule real_sqrt_unique) (simp_all add: power2_eq_square power_divide)

lemma rounding_chain_upper: "(1 + 1 / 2 ^ 53) / ((1 - 1 / 2 ^ 53) * (1 - 1 / 2 ^ 53) * (1 - 1 / 2 ^ 53)) \<le> 1 + 1 / (2 ^ 50 :: real)"
  by simp

lemma rounding_chain_lower: "1 - 1 / (2 ^ 50 :: real) \<le> (1 - 1 / 2 ^ 53) / ((1 + 1 / 2 ^ 53) * (1 + 1 / 2 ^ 53) * (1 + 1 / 2 ^ 53))"
  by simp

lemma rel_bounds:
  assumes "\<bar>y - x\<bar> \<le> x / 2 ^ 53"
  shows "(1 - 1 / 2 ^ 53) * x \<le> y" and "y \<le> (1 + 1 / 2 ^ 53) * (x::real)"
proof -
  have a: "(1 - 1 / 2 ^ 53) * x = x - x / 2 ^ 53" "(1 + 1 / 2 ^ 53) * x = x + x / 2 ^ 53"
    by (simp_all only: left_diff_distrib distrib_right mult_1 times_divide_eq_left)
  from assms have "y - x \<le> x / 2 ^ 53" "x - y \<le> x / 2 ^ 53" by linarith+
  then show "(1 - 1 / 2 ^ 53) * x \<le> y" "y \<le> (1 + 1 / 2 ^ 53) * x"
    unfolding a by linarith+
qed

lemma cosineSimilarity_self_near_one:
  assumes "\<exists>x\<in>set a. x \<noteq> 0" and "\<forall>x\<in>set a. singlePrecision x"
  shows "\<bar>cosineSimilarity a a - 1\<bar> \<le> 1 / 2 ^ 50"
proof -
  define N where "N = sumProducts (zip a a)"
  define s where "s = fl (sqrt N)"
  define d where "d = fl (s * s)"
  define q where "q = N / d"
  define lo where "lo = 1 - 1 / (2 ^ 53 :: real)"
  define hi where "hi = 1 + 1 / (2 ^ 53 :: real)"
  have lo: "0 < lo" "lo = 1 - 1 / 2 ^ 53" and hi: "0 < hi" "hi = 1 + 1 / 2 ^ 53"
    by (simp_all add: lo_def hi_def)
  have N: "1 / 2 ^ 298 \<le> N" unfolding N_def using assms by (rule sumProducts_squares_lower)
  moreover have "0 < 1 / (2::real) ^ 298" by simp
  ultimately have Npos: "0 < N" by linarith
  have rt: "1 / 2 ^ 149 \<le> sqrt N"
    using real_sqrt_le_mono[OF N] by (simp only: sqrt_power_298)
  have rtpos: "0 < sqrt N" using Npos by simp
  have "1 / 2 ^ 1022 \<le> \<bar>sqrt N\<bar>" using rt by (simp add: field_simps) 
  from fl_error[OF this] have "\<bar>s - sqrt N\<bar> \<le> sqrt N / 2 ^ 53"
    using rtpos by (simp add: s_def)
  then have s1: "lo * sqrt N \<le> s" and s2: "s \<le> hi * sqrt N"
    unfolding lo_def hi_def by (rule rel_bounds)+
  have "0 < lo * sqrt N" using lo(1) rtpos by simp
  then have spos: "0 < s" using s1 by linarith
  have lpos: "0 \<le> lo * sqrt N" using lo(1) rtpos by simp
  have "(lo * sqrt N) * (lo * sqrt N) \<le> s * s"
    using s1 spos lpos by (intro mult_mono) auto
  moreover have "(lo * sqrt N) * (lo * sqrt N) = lo * lo * N"
    using Npos by (simp add: algebra_simps)
  ultimately have p1: "lo * lo * N \<le> s * s" by simp
  have "s * s \<le> (hi * sqrt N) * (hi * sqrt N)"
    using s2 spos by (intro mult_mono) auto
  moreover have "(hi * sqrt N) * (hi * sqrt N) = hi * hi * N"
    using Npos by (simp add: algebra_simps)
  ultimately have p2: "s * s \<le> hi * hi * N" by simp
  have "1 / 2 ^ 1022 \<le> lo * lo * (1 / 2 ^ 298)" by (simp add: lo_def)
  also have "\<dots> \<le> lo * lo * N" using N lo(1) by (intro mult_left_mono) auto
  finally have "1 / 2 ^ 1022 \<le> \<bar>s * s\<bar>" using p1 by simp
  from fl_error[OF this] have "\<bar>d - s * s\<bar> \<le> s * s / 2 ^ 53" by (simp add: d_def)
  then have "lo * (s * s) \<le> d" and "d \<le> hi * (s * s)"
    unfolding lo_def hi_def by (rule rel_bounds)+
  moreover have "lo * (lo * lo * N) \<le> lo * (s * s)" using p1 lo(1) by (intro mult_left_mono) auto
  moreover have "hi * (s * s) \<le> hi * (hi * hi * N)" using p2 hi(1) by (intro mult_left_mono) auto
  ultimately have d1: "lo * lo * lo * N \<le> d" and d2: "d \<le> hi * hi * hi * N"
    by (simp_all add: mult.assoc)
  have l3: "0 < lo * lo * lo" and h3: "0 < hi * hi * hi" using lo(1) hi(1) by simp_all
  have "0 < lo * lo * lo * N" using l3 Npos by simp
  then have dpos: "0 < d" using d1 by linarith
  have q1: "1 / (hi * hi * hi) \<le> q"
    unfolding q_def using d2 h3 dpos Npos by (simp add: field_simps)
  have q2: "q \<le> 1 / (lo * lo * lo)"
    unfolding q_def using d1 l3 dpos Npos by (simp add: field_simps)
  have qpos: "0 < q" unfolding q_def using Npos dpos by simp
  have "1 / 2 ^ 1022 \<le> 1 / (hi * hi * hi)" by (simp add: hi_def)
  then have "1 / 2 ^ 1022 \<le> \<bar>q\<bar>" using q1 by linarith
  from fl_error[OF this] have "\<bar>fl q - q\<bar> \<le> q / 2 ^ 53" using qpos by simp
  then have r1: "lo * q \<le> fl q" and r2: "fl q \<le> hi * q"
    unfolding lo_def hi_def by (rule rel_bounds)+
  have "hi * q \<le> hi * (1 / (lo * lo * lo))"
    using q2 hi(1) by (intro mult_left_mono) auto
  then have "fl q \<le> hi * (1 / (lo * lo * lo))" using r2 by linarith
  then have u: "fl q \<le> 1 + 1 / 2 ^ 50"
    using rounding_chain_upper by (simp add: lo_def hi_def)
  have "lo * (1 / (hi * hi * hi)) \<le> lo * q"
    using q1 lo(1) by (intro mult_left_mono) auto
  then have "lo * (1 / (hi * hi * hi)) \<le> fl q" using r1 by linarith
  then have l: "1 - 1 / 2 ^ 50 \<le> fl q"
    using rounding_chain_lower by (simp add: lo_def hi_def)
  have "cosineSimilarity a a = fl q"
    using dpos by (simp add: cosineSimilarity_def Let_def N_def[symmetric] s_def[symmetric]
          d_def[symmetric] q_def)
  moreover have "\<bar>fl q - 1\<bar> \<le> 1 / 2 ^ 50" using u l unfolding abs_le_iff by linarith
  ultimately show ?thesis by (simp only:)
qed


lemma cosine_chroma:
  "cosineSimilarity chromaA chromaA = 1" "cosineSimilarity chromaB chromaB = 1"
  "cosineSimilarity chromaA chromaB = 0" "cosineSimilarity chromaB chromaA = 0"
  "cosineSimilarity chromaZ v = 0" "cosineSimilarity v chromaZ = 0"
proof -
  show "cosineSimilarity chromaA chromaA = 1" "cosineSimilarity chromaB chromaB = 1"
    "cosineSimilarity chromaA chromaB = 0" "cosineSimilarity chromaB chromaA = 0"
    by (simp_all add: cosineSimilarity_def sumProducts_def chromaA_def chromaB_def Let_def)
  show "cosineSimilarity chromaZ v = 0" "cosineSimilarity v chromaZ = 0"
    by (rule cosineSimilarity_zero, simp add: chromaZ_def)+
qed

text \<open>
  The doubles met by the similarity of the vector of twelve components 1.0 with itself:
  the partial sums 1 to 12, \<open>sqrt 12\<close> rounded to 3.4641016151377544, its square rounded to
  11.999999999999998, and the quotient of 12 by that.
\<close>

lemma fl_small_ints:
  "fl 2 = 2" "fl 3 = 3" "fl 4 = 4" "fl 5 = 5" "fl 6 = 6" "fl 7 = 7" "fl 8 = 8" "fl 9 = 9"
  "fl 10 = 10" "fl 11 = 11" "fl 12 = 12"
  using fl_pos [of 2 51] fl_pos [of 3 51] fl_pos [of 4 50] fl_pos [of 5 50] fl_pos [of 6 50]
    fl_pos [of 7 50] fl_pos [of 8 49] fl_pos [of 9 49] fl_pos [of 10 49] fl_pos [of 11 49]
    fl_pos [of 12 49]
  by (simp_all add: roundEven_def)

lemma sqrt_12_bounds:
  "7800463371553961 / 2 ^ 51 + 1 / 2 ^ 52 < sqrt 12" "sqrt 12 < 7800463371553962 / 2 ^ 51 + 1 / 2 ^ 52"
  by (rule real_less_rsqrt, simp add: power2_eq_square, rule real_less_lsqrt, simp_all add: power2_eq_square)

lemma fl_sqrt_12: "fl (sqrt 12) = 3900231685776981 / 1125899906842624"
proof -
  have lo: "2 \<le> sqrt 12" by (rule real_le_rsqrt) simp
  have hi: "sqrt 12 < 4" by (rule real_less_lsqrt) simp_all
  have "sqrt 12 * 2 ^ 51 - real_of_int 7800463371553962 < 1 / 2"
    "- (sqrt 12 * 2 ^ 51 - real_of_int 7800463371553962) < 1 / 2"
    using sqrt_12_bounds by (simp_all add: field_simps)
  then have "\<bar>sqrt 12 * 2 ^ 51 - real_of_int 7800463371553962\<bar> < 1 / 2"
    by (simp only: abs_less_iff)
  then have r: "roundEven (sqrt 12 * 2 ^ 51) = 7800463371553962" by (rule roundEven_near)
  have "fl (sqrt 12) = real_of_int (roundEven (sqrt 12 * 2 ^ 51)) / 2 ^ 51"
    using lo hi by (intro fl_pos) simp_all
  then have "fl (sqrt 12) = real_of_int 7800463371553962 / 2 ^ 51" unfolding r .
  then show ?thesis by simp
qed

lemma fl_twelve_ones:
  "fl (15211807202738751055289669474361 / 1267650600228229401496703205376)
     = 6755399441055743 / 562949953421312"
  "fl (6755399441055744 / 6755399441055743) = 4503599627370497 / 4503599627370496"
  using fl_pos [of "15211807202738751055289669474361 / 1267650600228229401496703205376" 49]
    fl_pos [of "6755399441055744 / 6755399441055743" 52]
  by (simp_all add: roundEven_def)

lemma cosine_twelve_ones:
  "cosineSimilarity (uniformChroma 1) (uniformChroma 1) = 4503599627370497 / 4503599627370496"
  by (simp add: cosineSimilarity_def sumProducts_def uniformChroma_def Let_def fl_small_ints
        fl_sqrt_12 fl_twelve_ones)

lemma length_buildSimilarityMatrix [simp]:
  "length (buildSimilarityMatrix features) = length features"
  by (simp add: buildSimilarityMatrix_def)

text \<open>
  C7 (as amended). The matrix is square with as many rows as there are frames, its entry
  \<open>[i][j]\<close> is the cosine similarity of the chroma vectors \<open>i\<close> and \<open>j\<close> as the code computes
  it in double precision, and it is symmetric. An entry is 0 when one of the two vectors
  is all zero; in particular the diagonal entry of an all-zero chroma vector is 0. The
  diagonal entry of a chroma vector of single-precision values with a non-zero component is
  within \<open>2 ^ -50\<close> of 1; it need not be 1.
\<close>

theorem similarity_matrix_shape:
  "length (buildSimilarityMatrix features) = length features
   \<and> (\<forall>i < length features. length (buildSimilarityMatrix features ! i) = length features)
   \<and> (\<forall>i < length features. \<forall>j < length features.
         buildSimilarityMatrix features ! i ! j = cosineSimilarity (features ! i) (features ! j)
       \<and> buildSimilarityMatrix features ! i ! j = buildSimilarityMatrix features ! j ! i)
   \<and> (\<forall>i < length features. \<forall>j < length features.
         (\<forall>x\<in>set (features ! i). x = 0) \<or> (\<forall>x\<in>set (features ! j). x = 0)
         \<longrightarrow> buildSimilarityMatrix features ! i ! j = 0)
   \<and> (\<forall>i < length features.
         (\<exists>x\<in>set (features ! i). x \<noteq> 0) \<and> (\<forall>x\<in>set (features ! i). singlePrecision x)
         \<longrightarrow> \<bar>buildSimilarityMatrix features ! i ! i - 1\<bar> \<le> 1 / 2 ^ 50)"
proof -
  have entry: "buildSimilarityMatrix features ! i ! j = cosineSimilarity (features ! i) (features ! j)"
    if "i < length features" "j < length features" for i j
    using that by (simp add: buildSimilarityMatrix_def)
  have rows: "length (buildSimilarityMatrix features ! i) = length features"
    if "i < length features" for i
    using that by (simp add: buildSimilarityMatrix_def)
  have sym: "buildSimilarityMatrix features ! i ! j = buildSimilarityMatrix features ! j ! i"
    if "i < length features" "j < length features" for i j
    using that entry cosineSimilarity_commute by simp
  have zero: "buildSimilarityMatrix features ! i ! j = 0"
    if "i < length features" "j < length features"
      "(\<forall>x\<in>set (features ! i). x = 0) \<or> (\<forall>x\<in>set (features ! j). x = 0)" for i j
    using that entry cosineSimilarity_zero by simp
  have diag: "\<bar>buildSimilarityMatrix features ! i ! i - 1\<bar> \<le> 1 / 2 ^ 50"
    if "i < length features" "\<exists>x\<in>set (features ! i). x \<noteq> 0"
      "\<forall>x\<in>set (features ! i). singlePrecision x" for i
    using that entry cosineSimilarity_self_near_one by simp
  show ?thesis using entry rows sym zero diag by simp
qed

text \<open>
  C7, the claim as stated, fails on the diagonal. The similarity of the zero chroma vector
  (a silent frame, or a frame whose chromagram threw) with itself is 0, not 1. And for a
  vector with non-zero components the rounding can miss 1: the similarity of the vector of
  twelve components 1.0 with itself is 1.0000000000000002, that is \<open>1 + 2 ^ -52\<close>.
\<close>

theorem similarity_diagonal_counterexample:
  "buildSimilarityMatrix [chromaZ] ! 0 ! 0 = 0
   \<and> buildSimilarityMatrix [chromaZ] ! 0 ! 0 \<noteq> 1
   \<and> buildSimilarityMatrix [uniformChroma 1] ! 0 ! 0 = 1 + 1 / 2 ^ 52
   \<and> buildSimilarityMatrix [uniformChroma 1] ! 0 ! 0 \<noteq> 1"
  by (simp add: buildSimilarityMatrix_def cosine_chroma cosine_twelve_ones)

theorem similarity_matrix_shape_witness:
  "length (buildSimilarityMatrix [chromaA, chromaZ, chromaB, chromaA]) = 4
   \<and> length (buildSimilarityMatrix [chromaA, chromaZ, chromaB, chromaA] ! 2) = 4
   \<and> buildSimilarityMatrix [chromaA, chromaZ, chromaB, chromaA] ! 0 ! 3 = 1
   \<and> buildSimilarityMatrix [chromaA, chromaZ, chromaB, chromaA] ! 3 ! 0 = 1
   \<and> buildSimilarityMatrix [chromaA, chromaZ, chromaB, chromaA] ! 0 ! 2 = 0
   \<and> set chromaZ = {0}
   \<and> buildSimilarityMatrix [chromaA, chromaZ, chromaB, chromaA] ! 1 ! 1 = 0
   \<and> buildSimilarityMatrix [chromaA, chromaZ, chromaB, chromaA] ! 1 ! 2 = 0
   \<and> set chromaB = {0, 1} \<and> singlePrecision 0 \<and> singlePrecision 1
   \<and> buildSimilarityMatrix [chromaA, chromaZ, chromaB, chromaA] ! 2 ! 2 = 1
   \<and> \<bar>buildSimilarityMatrix [chromaA, chromaZ, chromaB, chromaA] ! 2 ! 2 - 1\<bar> \<le> 1 / 2 ^ 50"
proof -
  have sz: "set chromaZ = {0}" and sb: "set chromaB = {0, 1}"
    by (auto simp: chromaZ_def chromaB_def)
  have sp: "singlePrecision 0" "singlePrecision 1" by (simp_all add: singlePrecision_def)
  have z: "\<forall>x\<in>set chromaZ. x = 0" using sz by simp
  have b: "\<exists>x\<in>set chromaB. x \<noteq> 0" "\<forall>x\<in>set chromaB. singlePrecision x"
    using sb sp by simp_all
  from similarity_matrix_shape[of "[chromaA, chromaZ, chromaB, chromaA]"] z b cosine_chroma
  have "\<bar>buildSimilarityMatrix [chromaA, chromaZ, chromaB, chromaA] ! 2 ! 2 - 1\<bar> \<le> 1 / 2 ^ 50"
    "buildSimilarityMatrix [chromaA, chromaZ, chromaB, chromaA] ! 1 ! 1 = 0"
    "buildSimilarityMatrix [chromaA, chromaZ, chromaB, chromaA] ! 1 ! 2 = 0"
    "buildSimilarityMatrix [chromaA, chromaZ, chromaB, chromaA] ! 0 ! 3
       = buildSimilarityMatrix [chromaA, chromaZ, chromaB, chromaA] ! 3 ! 0"
    "buildSimilarityMatrix [chromaA, chromaZ, chromaB, chromaA] ! 0 ! 3 = cosineSimilarity chromaA chromaA"
    "buildSimilarityMatrix [chromaA, chromaZ, chromaB, chromaA] ! 0 ! 2 = cosineSimilarity chromaA chromaB"
    "buildSimilarityMatrix [chromaA, chromaZ, chromaB, chromaA] ! 2 ! 2 = cosineSimilarity chromaB chromaB"
    "length (buildSimilarityMatrix [chromaA, chromaZ, chromaB, chromaA] ! 2) = 4"
    by (simp_all add: numeral_3_eq_3)
  then show ?thesis using sz sb sp cosine_chroma by simp
qed

subsection \<open>Tempo fallback\<close>

text \<open>
  C5. When the conversion of the samples to the library's vector throws, \<^verbatim>\<open>detectBPM\<close>
  resolves with \<open>bpm = 120\<close> and \<open>confidence = 0\<close>. Whenever it resolves, the \<open>bpm\<close> it
  returns is an integer: 120 when the conversion threw, and otherwise the estimate of the
  rhythm extractors (with their default of 120) rounded to the nearest integer.
\<close>

theorem detectBPM_fallback_and_rounding:
  "(ensureInitialized core = Inr () \<and> audioBufferToMono audioBuffer = Inr audioVector
      \<and> arrayToVector (the (essentia core)) audioVector = Inl convError
     \<longrightarrow> detectBPM core audioBuffer = Inr \<lparr>bpm = 120, confidence = Some 0\<rparr>)
   \<and> (detectBPM core audioBuffer = Inr result
     \<longrightarrow> bpm result = real_of_int (round (bpm result))
       \<and> (\<exists>audioVector. audioBufferToMono audioBuffer = Inr audioVector
            \<and> (case arrayToVector (the (essentia core)) audioVector of
                  Inl convError \<Rightarrow> bpm result = 120
                | Inr v \<Rightarrow> bpm result = real_of_int (round (fst
                    (estimateTempo (the (essentia core)) v (sampleRate audioBuffer)))))))"
  by (auto simp: detectBPM_def split: sum.splits prod.splits)

theorem detectBPM_fallback_and_rounding_witness:
  "ensureInitialized (readyCore throwingEssentia) = Inr ()
   \<and> audioBufferToMono (createMonoBuffer [1/10, - 1/5, 3/10] 44100 None) = Inr [1/10, - 1/5, 3/10]
   \<and> arrayToVector (the (essentia (readyCore throwingEssentia))) [1/10, - 1/5, 3/10] = Inl EssentiaFailure
   \<and> detectBPM (readyCore throwingEssentia) (createMonoBuffer [1/10, - 1/5, 3/10] 44100 None)
        = Inr \<lparr>bpm = 120, confidence = Some 0\<rparr>
   \<and> detectBPM (readyCore stubEssentia) (createMonoBuffer [1/10, - 1/5, 3/10] 44100 None)
        = Inr \<lparr>bpm = 128, confidence = Some 3.5\<rparr>
   \<and> (128 :: real) = real_of_int (round (fst (estimateTempo stubEssentia [1/10, - 1/5, 3/10] 44100)))"
proof -
  let ?buf = "createMonoBuffer [1/10, - 1/5, 3/10] 44100 None"
  have a: "ensureInitialized (readyCore throwingEssentia) = Inr ()"
    by (simp add: ensureInitialized_def readyCore_def)
  have b: "audioBufferToMono ?buf = Inr [1/10, - 1/5, 3/10]"
    by (simp add: audioBufferToMono_def createMonoBuffer_def)
  have c: "arrayToVector (the (essentia (readyCore throwingEssentia))) [1/10, - 1/5, 3/10]
             = Inl EssentiaFailure"
    by (simp add: readyCore_def throwingEssentia_def)
  have r: "round (128.4 :: real) = 128" by (simp add: round_def)
  have d: "detectBPM (readyCore stubEssentia) ?buf = Inr \<lparr>bpm = 128, confidence = Some 3.5\<rparr>"
    using b r
    by (simp add: detectBPM_def ensureInitialized_def readyCore_def stubEssentia_def
          estimateTempo_def rhythmBpm_def rhythmConfidence_def truthy_def)
  have e: "arrayToVector (the (essentia (readyCore stubEssentia))) [1/10, - 1/5, 3/10]
             = Inr [1/10, - 1/5, 3/10]"
    by (simp add: readyCore_def stubEssentia_def)
  from detectBPM_fallback_and_rounding[where core = "readyCore throwingEssentia"
         and audioBuffer = ?buf and audioVector = "[1/10, - 1/5, 3/10]"
         and convError = EssentiaFailure] a b c
  have f: "detectBPM (readyCore throwingEssentia) ?buf = Inr \<lparr>bpm = 120, confidence = Some 0\<rparr>"
    by blast
  from detectBPM_fallback_and_rounding[where core = "readyCore stubEssentia"
         and audioBuffer = ?buf and result = "\<lparr>bpm = 128, confidence = Some 3.5\<rparr>"] d b e
  have g: "(128 :: real) = real_of_int (round (fst (estimateTempo stubEssentia [1/10, - 1/5, 3/10] 44100)))"
    by (simp add: readyCore_def createMonoBuffer_def)
  from a b c f d g show ?thesis by simp
qed

subsection \<open>Frame counts and progress\<close>

lemma featureFold_inv:
  "fold (featureStep h sr a cb nf) [0..<m] ([], [], []) = (c, e, p) \<Longrightarrow>
   length c = m \<and> length e = m \<and> sorted p \<and> (p = [] \<or> 0 < nf) \<and>
   (\<forall>x\<in>set p. x \<le> 0.6 * (real m / real_of_int nf))"
proof (induction m arbitrary: c e p)
  case 0
  then show ?case by simp
next
  case (Suc m)
  obtain c0 e0 p0 where st: "fold (featureStep h sr a cb nf) [0..<m] ([], [], []) = (c0, e0, p0)"
    by (cases "fold (featureStep h sr a cb nf) [0..<m] ([], [], [])") auto
  from Suc.IH[OF st] have len: "length c0 = m" "length e0 = m" and so: "sorted p0"
    and ne: "p0 = [] \<or> 0 < nf" and bd: "\<forall>x\<in>set p0. x \<le> 0.6 * (real m / real_of_int nf)"
    by auto
  have step: "featureStep h sr a cb nf m (c0, e0, p0) = (c, e, p)"
    using Suc.prems st by simp
  obtain ch en where ff: "frameFeatures (h m) sr
      (take (min (m * hopSize + frameSize) (length a) - m * hopSize) (drop (m * hopSize) a)) = (ch, en)"
    by (cases "frameFeatures (h m) sr
      (take (min (m * hopSize + frameSize) (length a) - m * hopSize) (drop (m * hopSize) a))") auto
  let ?new = "0.6 * (real m / real_of_int nf)"
  let ?emit = "m > 0 \<and> m mod chunkSize = 0 \<and> cb \<and> nf > 0"
  from step ff have c: "c = c0 @ [ch]" and e: "e = e0 @ [en]"
    and p: "p = (if ?emit then p0 @ [?new] else p0)"
    by (auto simp: featureStep_def Let_def split: if_splits)
  have mono: "0 < nf \<Longrightarrow> 0.6 * (real m / real_of_int nf) \<le> 0.6 * (real (Suc m) / real_of_int nf)"
    by (simp add: divide_right_mono)
  show ?case
  proof (cases ?emit)
    case True
    then have nf: "0 < nf" by simp
    have "sorted (p0 @ [?new])" using so bd by (simp add: sorted_append)
    moreover have "\<forall>x\<in>set (p0 @ [?new]). x \<le> 0.6 * (real (Suc m) / real_of_int nf)"
      using bd mono[OF nf] by auto
    ultimately show ?thesis using c e p len True by simp
  next
    case False
    have "\<forall>x\<in>set p0. x \<le> 0.6 * (real (Suc m) / real_of_int nf)"
    proof
      fix x assume x: "x \<in> set p0"
      then have "0 < nf" using ne by auto
      from mono[OF this] bd x show "x \<le> 0.6 * (real (Suc m) / real_of_int nf)" by force
    qed
    then show ?thesis using c e p len so ne False by simp
  qed
qed

lemma numFrames_div:
  "\<lfloor>(real n - real frameSize) / real hopSize\<rfloor> = (int n - 2048) div 512"
proof -
  have "(real n - real frameSize) / real hopSize = real_of_int (int n - 2048) / real_of_int 512"
    by (simp add: frameSize_def hopSize_def)
  then show ?thesis by (simp only: floor_divide_of_int_eq)
qed

lemma extractFeaturesAt_props:
  assumes "extractFeaturesAt h sr a cb = (c, e, p)"
  shows "length c = nat ((int (length a) - 2048) div 512)"
    and "length e = nat ((int (length a) - 2048) div 512)"
    and "sorted p" and "\<forall>x\<in>set p. x \<le> 0.6"
proof -
  let ?nf = "(int (length a) - 2048) div 512"
  from assms have f: "fold (featureStep h sr a cb ?nf) [0..<nat ?nf] ([], [], []) = (c, e, p)"
    by (simp add: extractFeaturesAt_def numFrames_div Let_def)
  note inv = featureFold_inv[OF f]
  from inv show "length c = nat ?nf" "length e = nat ?nf" "sorted p" by auto
  show "\<forall>x\<in>set p. x \<le> 0.6"
  proof
    fix x assume x: "x \<in> set p"
    with inv have nf: "0 < ?nf" and "x \<le> 0.6 * (real (nat ?nf) / real_of_int ?nf)" by auto
    moreover have "real (nat ?nf) / real_of_int ?nf = 1" using nf by simp
    ultimately show "x \<le> 0.6" by simp
  qed
qed

lemma extractFeatures_props:
  assumes "extractFeatures E sr a cb = (c, e, p)"
  shows "length c = nat ((int (length a) - 2048) div 512)"
    and "length e = nat ((int (length a) - 2048) div 512)"
    and "sorted p" and "\<forall>x\<in>set p. x \<le> 0.6"
  using extractFeaturesAt_props[OF assms[unfolded extractFeatures_def]] by blast+

text \<open>
  C8. The claim gives both passes \<open>\<lfloor>(N - frameSize) / hopSize\<rfloor> + 1\<close> frames, 192 for
  100000 samples. The onset pass does process that many (\<open>onsetLoop_length\<close>,
  \<open>onset_pass_frame_count\<close>). The structure pass stops one frame earlier: its loop runs
  \<open>\<lfloor>(N - frameSize) / hopSize\<rfloor>\<close> times (\<open>extractFeatures_props\<close>), 191 times for 100000
  samples, so the last complete frame is never analysed.
\<close>

theorem structure_pass_frame_count:
  "length (fst (extractFeatures E sr (replicate 100000 x) cb)) = 191
   \<and> length (fst (snd (extractFeatures E sr (replicate 100000 x) cb))) = 191"
proof -
  obtain c e p where r: "extractFeatures E sr (replicate 100000 x) cb = (c, e, p)"
    by (cases "extractFeatures E sr (replicate 100000 x) cb") auto
  from extractFeatures_props(1,2)[OF r] show ?thesis by (simp add: r)
qed

lemma onset_pass_frame_count:
  "onsetLoop E w (replicate 100000 x) 0 None [] = Inr r \<Longrightarrow> length r = 192"
  using onsetLoop_length[of E w "replicate 100000 x" 0 None "[]" r] by simp

text \<open>
  C6 (as amended). For a call that supplies a progress callback, whether or not the object
  is cleaned up while the call is suspended: the reported values never decrease. When the
  call gets past the initialisation check and the mix-down, which come before the \<^verbatim>\<open>try\<close>,
  at least one value is reported and the last one is 1, both when the promise resolves and
  when it rejects. When one of those two throws, the promise rejects and no value has been
  reported.
\<close>

theorem progress_sorted_and_complete:
  assumes "onProgress options"
  shows "sorted (fst (detectSongStructureDuring cleanupAt core audioBuffer options))
     \<and> (ensureInitialized core = Inr () \<and> (\<exists>audioVector. audioBufferToMono audioBuffer = Inr audioVector)
        \<longrightarrow> fst (detectSongStructureDuring cleanupAt core audioBuffer options) \<noteq> []
          \<and> last (fst (detectSongStructureDuring cleanupAt core audioBuffer options)) = 1)
     \<and> ((\<exists>result. snd (detectSongStructureDuring cleanupAt core audioBuffer options) = Inr result)
        \<longrightarrow> last (fst (detectSongStructureDuring cleanupAt core audioBuffer options)) = 1)
     \<and> (\<not> (ensureInitialized core = Inr () \<and> (\<exists>audioVector. audioBufferToMono audioBuffer = Inr audioVector))
        \<longrightarrow> fst (detectSongStructureDuring cleanupAt core audioBuffer options) = []
          \<and> (\<exists>e. snd (detectSongStructureDuring cleanupAt core audioBuffer options) = Inl e))"
proof (cases "ensureInitialized core")
  case (Inl e)
  then show ?thesis by (simp add: detectSongStructureDuring_def)
next
  case init: (Inr u)
  show ?thesis
  proof (cases "audioBufferToMono audioBuffer")
    case (Inl e)
    then show ?thesis using init by (simp add: detectSongStructureDuring_def)
  next
    case (Inr audioVector)
    let ?h = "\<lambda>i. if cleanedBefore cleanupAt (i + 1) then throwingEssentia else the (essentia core)"
    obtain c e p where r: "extractFeaturesAt ?h (sampleRate audioBuffer) audioVector True = (c, e, p)"
      by (cases "extractFeaturesAt ?h (sampleRate audioBuffer) audioVector True") auto
    have tr: "fst (detectSongStructureDuring cleanupAt core audioBuffer options)
                = p @ [0.6, 0.8, 0.9, 0.95, 1]"
      using init Inr r assms
      by (simp add: detectSongStructureDuring_def Let_def report_def split: sum.splits)
    have "sorted (p @ [0.6, 0.8, 0.9, 0.95, 1])"
      using extractFeaturesAt_props(3,4)[OF r] by (auto simp: sorted_append)
    then show ?thesis using tr init Inr by simp
  qed
qed

text \<open>
  C6, the claim as stated, fails for a call on an object that is not initialised: the
  promise rejects and the callback has not been called at all, so no value 1.0 precedes the
  rejection.
\<close>

theorem progress_missing_counterexample:
  "onProgress defaultStructureOptions
   \<and> detectSongStructure \<lparr>essentia = None, isInitialized = False\<rparr>
        (createMonoBuffer (replicate 5120 0) 44100 None) defaultStructureOptions
      = ([], Inl NotInitialized)"
  by (simp add: detectSongStructure_def detectSongStructureDuring_def ensureInitialized_def
        defaultStructureOptions_def)

subsection \<open>Section boundaries\<close>

lemma gapStep_fold_min:
  "0 < m \<Longrightarrow>
   \<exists>k<m. fold (gapStep bs) [0..<m] (None, None) = (Some (bs ! (k + 1) - bs ! k), Some k) \<and>
          (\<forall>j<m. bs ! (k + 1) - bs ! k \<le> bs ! (j + 1) - bs ! j) \<and>
          (\<forall>j<k. bs ! (k + 1) - bs ! k < bs ! (j + 1) - bs ! j)"
proof (induction m)
  case 0
  then show ?case by simp
next
  case (Suc m)
  show ?case
  proof (cases "m = 0")
    case True
    then show ?thesis by (simp add: gapStep_def)
  next
    case False
    with Suc.IH obtain k where k: "k < m"
      "fold (gapStep bs) [0..<m] (None, None) = (Some (bs ! (k + 1) - bs ! k), Some k)"
      "\<forall>j<m. bs ! (k + 1) - bs ! k \<le> bs ! (j + 1) - bs ! j"
      "\<forall>j<k. bs ! (k + 1) - bs ! k < bs ! (j + 1) - bs ! j" by auto
    have step: "fold (gapStep bs) [0..<Suc m] (None, None)
                  = gapStep bs m (Some (bs ! (k + 1) - bs ! k), Some k)"
      using k(2) by simp
    show ?thesis
    proof (cases "bs ! (m + 1) - bs ! m < bs ! (k + 1) - bs ! k")
      case True
      then have "fold (gapStep bs) [0..<Suc m] (None, None) = (Some (bs ! (m + 1) - bs ! m), Some m)"
        using step by (simp add: gapStep_def)
      moreover have "\<forall>j<Suc m. bs ! (m + 1) - bs ! m \<le> bs ! (j + 1) - bs ! j"
        using True k(3) by (auto simp: less_Suc_eq) 
      moreover have "\<forall>j<m. bs ! (m + 1) - bs ! m < bs ! (j + 1) - bs ! j"
        using True k(3) by force
      ultimately show ?thesis by blast
    next
      case False
      then have "fold (gapStep bs) [0..<Suc m] (None, None) = (Some (bs ! (k + 1) - bs ! k), Some k)"
        using step by (simp add: gapStep_def)
      moreover have "\<forall>j<Suc m. bs ! (k + 1) - bs ! k \<le> bs ! (j + 1) - bs ! j"
        using False k(3) by (auto simp: less_Suc_eq)
      ultimately show ?thesis using k(1,4) by (intro exI[of _ k]) auto
    qed
  qed
qed

text \<open>The index found is that of the smallest gap, the lowest one among equal gaps.\<close>

lemma minGapIndex_least:
  assumes "2 \<le> length bs"
  shows "\<exists>k. minGapIndex bs = Some k \<and> k + 1 < length bs \<and>
             (\<forall>j. j + 1 < length bs \<longrightarrow> bs ! (k + 1) - bs ! k \<le> bs ! (j + 1) - bs ! j) \<and>
             (\<forall>j<k. bs ! (k + 1) - bs ! k < bs ! (j + 1) - bs ! j)"
proof -
  from assms have "0 < length bs - 1" by simp
  from gapStep_fold_min[OF this, of bs] obtain k where
    "k < length bs - 1"
    "fold (gapStep bs) [0..<length bs - 1] (None, None) = (Some (bs ! (k + 1) - bs ! k), Some k)"
    "\<forall>j<length bs - 1. bs ! (k + 1) - bs ! k \<le> bs ! (j + 1) - bs ! j"
    "\<forall>j<k. bs ! (k + 1) - bs ! k < bs ! (j + 1) - bs ! j" by blast
  then show ?thesis by (intro exI[of _ k]) (auto simp: minGapIndex_def)
qed

lemma mergeBoundaries_budget:
  "0 \<le> m \<Longrightarrow> bs \<noteq> [] \<Longrightarrow> int (length (mergeBoundaries bs m)) \<le> m + 1"
proof (induction bs m rule: mergeBoundaries.induct)
  case (1 bs m)
  show ?case
  proof (cases "int (length bs) > m + 1")
    case False
    then show ?thesis by (subst mergeBoundaries.simps) simp
  next
    case True
    with "1.prems" have "2 \<le> length bs" by simp
    from minGapIndex_least[OF this] obtain k where k: "minGapIndex bs = Some k" "k + 1 < length bs"
      by blast
    let ?bs = "take (k + 1) bs @ drop (k + 2) bs"
    have "?bs \<noteq> []" using k(2) by auto
    from "1.IH"[OF True k(1) "1.prems"(1) this]
    show ?thesis using True k(1) by (subst mergeBoundaries.simps) simp
  qed
qed

text \<open>
  When the last gap is strictly the smallest, the element the budget loop removes is the
  forced end boundary.
\<close>

lemma mergeBoundaries_removes_end:
  assumes len: "2 \<le> length bs" and over: "int (length bs) > m + 1"
    and small: "\<forall>j. j + 2 < length bs \<longrightarrow>
                  bs ! (length bs - 1) - bs ! (length bs - 2) < bs ! (j + 1) - bs ! j"
  shows "mergeBoundaries bs m = mergeBoundaries (butlast bs) m"
proof -
  from minGapIndex_least[OF len] obtain k where k: "minGapIndex bs = Some k" "k + 1 < length bs"
    and least: "\<forall>j. j + 1 < length bs \<longrightarrow> bs ! (k + 1) - bs ! k \<le> bs ! (j + 1) - bs ! j"
    by blast
  have "k = length bs - 2"
  proof (rule ccontr)
    assume "k \<noteq> length bs - 2"
    with k(2) have kk: "k + 2 < length bs" by simp
    with small have "bs ! (length bs - 1) - bs ! (length bs - 2) < bs ! (k + 1) - bs ! k" by simp
    moreover from least[rule_format, of "length bs - 2"] len
    have "bs ! (k + 1) - bs ! k \<le> bs ! (length bs - 1) - bs ! (length bs - 2)"
      by (simp add: numeral_2_eq_2 Suc_diff_Suc)
    ultimately show False by simp
  qed
  then have k1: "k + 1 = length bs - 1" and k2: "k + 2 = length bs" using len by auto
  have "take (k + 1) bs @ drop (k + 2) bs = butlast bs"
    unfolding k1 k2 by (simp add: butlast_conv_take)
  then show ?thesis using over k(1) by (subst mergeBoundaries.simps) simp
qed

lemma boundaryStep_cases:
  "boundaryStep nf thr K sr hop dur minSec i b = b \<or>
   boundaryStep nf thr K sr hop dur minSec i b = b @ [int i + K]"
  by (simp add: boundaryStep_def Let_def)

lemma boundaryStep_fold:
  "\<exists>cs. fold (boundaryStep nf thr K sr hop dur minSec) js b = b @ cs \<and>
        (\<forall>c\<in>set cs. \<exists>i\<in>set js. c = int i + K)"
proof (induction js arbitrary: b)
  case Nil
  show ?case by simp
next
  case (Cons j js)
  let ?b = "boundaryStep nf thr K sr hop dur minSec j b"
  from Cons.IH[of ?b] obtain cs where
    cs: "fold (boundaryStep nf thr K sr hop dur minSec) js ?b = ?b @ cs"
        "\<forall>c\<in>set cs. \<exists>i\<in>set js. c = int i + K" by blast
  from boundaryStep_cases[of nf thr K sr hop dur minSec j b] show ?case
  proof
    assume "?b = b"
    with cs show ?thesis by auto
  next
    assume "?b = b @ [int j + K]"
    with cs have "fold (boundaryStep nf thr K sr hop dur minSec) (j # js) b = b @ ((int j + K) # cs)"
      by simp
    moreover have "\<forall>c\<in>set ((int j + K) # cs). \<exists>i\<in>set (j # js). c = int i + K"
      using cs(2) by auto
    ultimately show ?thesis by blast
  qed
qed

lemma splice_Cons:
  "take (k + 1) (x # rest) @ drop (k + 2) (x # rest) = x # (take k rest @ drop (k + 1) rest)"
  by simp

lemma mergeBoundaries_within_budget:
  "int (length bs) \<le> m + 1 \<Longrightarrow> mergeBoundaries bs m = bs"
  by (subst mergeBoundaries.simps) simp

lemma mergeBoundaries_shape:
  "\<exists>rest'. mergeBoundaries (x # rest) m = x # rest' \<and> set rest' \<subseteq> set rest"
proof (induction "x # rest" m arbitrary: rest rule: mergeBoundaries.induct)
  case (1 m)
  show ?case
  proof (cases "int (length (x # rest)) > m + 1")
    case False
    then show ?thesis by (subst mergeBoundaries.simps) auto
  next
    case True
    show ?thesis
    proof (cases "minGapIndex (x # rest)")
      case None
      with True show ?thesis by (subst mergeBoundaries.simps) auto
    next
      case (Some k)
      let ?rest = "take k rest @ drop (k + 1) rest"
      have sp: "take (k + 1) (x # rest) @ drop (k + 2) (x # rest) = x # ?rest"
        by (rule splice_Cons)
      from "1.hyps"[OF True Some sp] obtain rest' where
        r: "mergeBoundaries (x # ?rest) m = x # rest'" "set rest' \<subseteq> set ?rest" by blast
      have "set ?rest \<subseteq> set rest"
        using set_take_subset[of k rest] set_drop_subset[of "k + 1" rest] by auto
      moreover have "mergeBoundaries (x # rest) m = mergeBoundaries (x # ?rest) m"
        using True Some sp by (subst mergeBoundaries.simps) simp
      ultimately show ?thesis using r by auto
    qed
  qed
qed

lemma toSections_length [simp]: "length (toSections sr hop bs) = length bs - 1"
  by (simp add: toSections_def)

lemma candidateBoundaries_head:
  "\<exists>cs. candidateBoundaries S sr hop dur minSec = 0 # cs"
proof -
  let ?K = "\<lfloor>3 * sr / real hop\<rfloor>"
  let ?nf = "noveltyFunction S ?K"
  from boundaryStep_fold[of ?nf "calculateThreshold ?nf 0.3" ?K sr hop dur minSec
         "[1..<length ?nf - 1]" "[0]"]
  obtain cs where
    "fold (boundaryStep ?nf (calculateThreshold ?nf 0.3) ?K sr hop dur minSec)
       [1..<length ?nf - 1] [0] = [0] @ cs" by blast
  then have "candidateBoundaries S sr hop dur minSec = 0 # cs @ [int (length S) - 1]"
    by (simp add: candidateBoundaries_def Let_def)
  then show ?thesis by blast
qed

lemma toSections_nth:
  assumes "i < length bs - 1"
  shows "startSample (toSections sr hop bs ! i)
           = \<lfloor>fl (fl (real_of_int (bs ! i) * real hop / sr) * sr)\<rfloor>"
    and "endSample (toSections sr hop bs ! i)
           = \<lfloor>fl (fl (real_of_int (bs ! (i + 1)) * real hop / sr) * sr)\<rfloor>"
  using assms by (simp_all add: toSections_def toSection_def Let_def)

lemma labelSections_length [simp]: "length (labelSections bs e d) = length bs"
  by (simp add: labelSections_def Let_def)

lemma labelSections_samples:
  "i < length bs \<Longrightarrow>
   startSample (labelSections bs e d ! i) = startSample (bs ! i) \<and>
   endSample (labelSections bs e d ! i) = endSample (bs ! i)"
  by (simp add: labelSections_def Let_def)

lemma detectSongStructure_result:
  assumes "detectSongStructure core audioBuffer options = (progress, Inr result)"
  shows "\<exists>audioVector c e p.
           audioBufferToMono audioBuffer = Inr audioVector \<and>
           extractFeatures (the (essentia core)) (sampleRate audioBuffer) audioVector
             (onProgress options) = (c, e, p) \<and>
           boundaries result =
             labelSections
               (detectBoundaries (buildSimilarityMatrix c) e (sampleRate audioBuffer) hopSize
                  (duration audioBuffer)
                  (case maxSections options of None \<Rightarrow> 8 | Some m \<Rightarrow> m)
                  (case minSectionDuration options of None \<Rightarrow> 5 | Some d \<Rightarrow> d))
               e (duration audioBuffer)"
  using assms
  by (auto simp: detectSongStructure_def detectSongStructureDuring_def extractFeatures_def
        cleanedBefore_def Let_def split: sum.splits prod.splits)

text \<open>
  The parts of C3 that hold for every result: if there is a section, the first one starts
  at sample 0, and each section ends at the sample where the next one starts. Both ends
  are computed from the same frame index by the same expression.
\<close>

lemma structure_sections_contiguous:
  assumes run: "detectSongStructure core audioBuffer options = (progress, Inr result)"
  shows "(boundaries result \<noteq> [] \<longrightarrow> startSample (hd (boundaries result)) = 0)
     \<and> (\<forall>i. Suc i < length (boundaries result) \<longrightarrow>
           endSample (boundaries result ! i) = startSample (boundaries result ! Suc i))"
proof -
  let ?sr = "sampleRate audioBuffer"
  let ?maxS = "case maxSections options of None \<Rightarrow> 8 | Some m \<Rightarrow> m"
  let ?minSec = "case minSectionDuration options of None \<Rightarrow> 5 | Some d \<Rightarrow> d"
  let ?dur = "duration audioBuffer"
  from detectSongStructure_result[OF run] obtain audioVector c e p where
    bs: "boundaries result =
      labelSections (detectBoundaries (buildSimilarityMatrix c) e ?sr hopSize ?dur ?maxS ?minSec) e ?dur"
    by auto
  let ?cands = "candidateBoundaries (buildSimilarityMatrix c) ?sr hopSize ?dur ?minSec"
  let ?frames = "mergeBoundaries ?cands ?maxS"
  let ?bs = "boundaries result"
  from candidateBoundaries_head[of "buildSimilarityMatrix c" ?sr hopSize ?dur ?minSec]
  obtain cs where cands: "?cands = 0 # cs" by blast
  from mergeBoundaries_shape[of 0 cs ?maxS] cands obtain rest where
    frames: "?frames = 0 # rest" by auto
  have len: "length rest = length ?bs"
    using bs frames by (simp add: detectBoundaries_def)
  have st: "startSample (?bs ! i)
              = \<lfloor>fl (fl (real_of_int ((0 # rest) ! i) * real hopSize / ?sr) * ?sr)\<rfloor>"
    and en: "endSample (?bs ! i)
              = \<lfloor>fl (fl (real_of_int (rest ! i) * real hopSize / ?sr) * ?sr)\<rfloor>"
    if "i < length rest" for i
    using that bs frames labelSections_samples[of i "toSections ?sr hopSize (0 # rest)" e ?dur]
      toSections_nth[of i "0 # rest" ?sr hopSize]
    by (simp_all add: detectBoundaries_def)
  have first: "?bs \<noteq> [] \<longrightarrow> startSample (hd ?bs) = 0"
  proof
    assume ne: "?bs \<noteq> []"
    then have "0 < length rest" using len by simp
    from st[OF this] show "startSample (hd ?bs) = 0" using ne by (simp add: hd_conv_nth)
  qed
  have contig: "\<forall>i. Suc i < length ?bs \<longrightarrow> endSample (?bs ! i) = startSample (?bs ! Suc i)"
  proof (intro allI impI)
    fix i assume i: "Suc i < length ?bs"
    then have "i < length rest" "Suc i < length rest" using len by auto
    from en[OF this(1)] st[OF this(2)] show "endSample (?bs ! i) = startSample (?bs ! Suc i)"
      by simp
  qed
  from first contig show ?thesis by blast
qed

text \<open>A silent buffer of 5120 samples at 44100 Hz, analysed with \<open>stubEssentia\<close>.\<close>

lemma replicate_12: "replicate 12 x = [x, x, x, x, x, x, x, x, x, x, x, x]"
  by (simp add: numeral_eq_Suc)

lemma frameFeatures_silence:
  "frameFeatures stubEssentia sr (replicate 2048 0) = (chromaZ, 0)"
  "frameFeatures throwingEssentia sr (replicate 2048 0) = (chromaZ, 0)"
  by (simp_all add: frameFeatures_def stubEssentia_def throwingEssentia_def rmsEnergy_def
        chromaZ_def sum_list_replicate replicate_12 upt_rec)

lemma extractFeatures_silent_5120:
  "extractFeatures stubEssentia 44100 (replicate 5120 0) True
     = ([chromaZ, chromaZ, chromaZ, chromaZ, chromaZ, chromaZ], [0, 0, 0, 0, 0, 0], [1/2])"
  by (simp add: extractFeatures_def extractFeaturesAt_def numFrames_div featureStep_def Let_def
        hopSize_def frameSize_def chunkSize_def frameFeatures_silence upt_rec)

lemma similarity_silent_6:
  "buildSimilarityMatrix [chromaZ, chromaZ, chromaZ, chromaZ, chromaZ, chromaZ]
     = replicate 6 (replicate 6 0)"
  by (simp add: buildSimilarityMatrix_def cosine_chroma upt_rec numeral_eq_Suc)

lemma boundaries_silent_6:
  "detectBoundaries (replicate 6 (replicate 6 0)) e 44100 512 d 8 5
     = [\<lparr>startSample = 0, endSample = 2560, startTime = 0,
         endTime = 8365870328212949 / 144115188075855872,
         label = [], sconfidence = None\<rparr>]"
  by (simp add: detectBoundaries_def candidateBoundaries_def noveltyFunction_def Let_def
        mergeBoundaries.simps toSections_def toSection_def fl_time_5_44100 fl_sample_5_44100)

lemma labels_silent_6:
  "labelSections [\<lparr>startSample = 0, endSample = 2560, startTime = 0,
         endTime = 8365870328212949 / 144115188075855872,
         label = [], sconfidence = None\<rparr>] [0, 0, 0, 0, 0, 0] d
   = [\<lparr>startSample = 0, endSample = 2560, startTime = 0,
         endTime = 8365870328212949 / 144115188075855872,
         label = ''Intro 1'', sconfidence = Some 0\<rparr>]"
  by (simp add: labelSections_def sectionEnergy_def sectionLabel_def Let_def showNat.simps
        digitChars_def upto_rec1)

lemma detectBPM_stub:
  "detectBPM (readyCore stubEssentia) (createMonoBuffer samples sr dur)
     = Inr \<lparr>bpm = 128, confidence = Some 3.5\<rparr>"
proof -
  have r: "round (128.4 :: real) = 128" by (simp add: round_def)
  show ?thesis
    using r
    by (simp add: detectBPM_def ensureInitialized_def readyCore_def stubEssentia_def
          audioBufferToMono_def createMonoBuffer_def
          estimateTempo_def rhythmBpm_def rhythmConfidence_def truthy_def)
qed

lemma silent_buffer:
  "audioBufferToMono (createMonoBuffer (replicate 5120 0) 44100 None) = Inr (replicate 5120 0)"
  "sampleRate (createMonoBuffer (replicate 5120 0) 44100 None) = 44100"
  "duration (createMonoBuffer (replicate 5120 0) 44100 None) = 5120 / 44100"
  by (simp_all add: audioBufferToMono_def createMonoBuffer_def)

lemma ready_core:
  "ensureInitialized (readyCore E) = Inr ()" "the (essentia (readyCore E)) = E"
  by (simp_all add: ensureInitialized_def readyCore_def)

lemma structure_run_silent_5120:
  "detectSongStructure (readyCore stubEssentia) (createMonoBuffer (replicate 5120 0) 44100 None)
     defaultStructureOptions
   = ([1/2, 0.6, 0.8, 0.9, 0.95, 1],
      Inr \<lparr>boundaries =
             [\<lparr>startSample = 0, endSample = 2560, startTime = 0,
               endTime = 8365870328212949 / 144115188075855872,
               label = ''Intro 1'', sconfidence = Some 0\<rparr>],
           sbpm = Some 128\<rparr>)"
proof -
  have x: "extractFeaturesAt (\<lambda>i. stubEssentia) 44100 (replicate 5120 0) True
     = ([chromaZ, chromaZ, chromaZ, chromaZ, chromaZ, chromaZ], [0, 0, 0, 0, 0, 0], [1/2])"
    using extractFeatures_silent_5120 by (simp add: extractFeatures_def)
  show ?thesis
    unfolding detectSongStructure_def detectSongStructureDuring_def
    by (simp add: ready_core silent_buffer defaultStructureOptions_def cleanedBefore_def x
          similarity_silent_6 boundaries_silent_6 labels_silent_6 detectBPM_stub report_def
          hopSize_def Let_def)
qed

text \<open>
  The same call when \<^verbatim>\<open>cleanup()\<close> runs during the yield before frame 5: frame 5 is analysed
  on the fallback of the frame loop, \<^verbatim>\<open>detectBPM\<close> finds the object not initialised, and
  the \<^verbatim>\<open>catch\<close> reports 1.0 before the promise rejects.
\<close>

lemma structure_run_silent_cleanup:
  "detectSongStructureDuring (Some 5) (readyCore stubEssentia)
     (createMonoBuffer (replicate 5120 0) 44100 None) defaultStructureOptions
   = ([1/2, 0.6, 0.8, 0.9, 0.95, 1], Inl NotInitialized)"
proof -
  have x: "extractFeaturesAt
       (\<lambda>i. if cleanedBefore (Some 5) (Suc i) then throwingEssentia
            else the (essentia (readyCore stubEssentia)))
       44100 (replicate 5120 0) True
     = ([chromaZ, chromaZ, chromaZ, chromaZ, chromaZ, chromaZ], [0, 0, 0, 0, 0, 0], [1/2])"
    by (simp add: extractFeaturesAt_def numFrames_div featureStep_def Let_def hopSize_def
          frameSize_def chunkSize_def cleanedBefore_def frameFeatures_silence ready_core upt_rec)
  have c: "cleanedBefore (Some 5) 6" by (simp add: cleanedBefore_def chunkSize_def)
  have b: "detectBPM (cleanup (readyCore stubEssentia)) audioBuffer = Inl NotInitialized"
    for audioBuffer
    by (simp add: detectBPM_def ensureInitialized_def cleanup_def readyCore_def)
  show ?thesis
    unfolding detectSongStructureDuring_def
    by (simp add: ready_core silent_buffer defaultStructureOptions_def x c b report_def Let_def
          frameSize_def hopSize_def)
qed

text \<open>
  The sample index of a boundary is computed from its time, and the rounding can leave it
  one below the start of the frame: at 44100 Hz a section that ends with frame 15 ends at
  sample 7679, where the frame starts at \<open>15 * 512 = 7680\<close>.
\<close>

lemma sample_index_below_frame_start:
  "toSection 44100 512 0 15
     = \<lparr>startSample = 0, endSample = 7679, startTime = 0,
        endTime = 6274402746159711 / 36028797018963968, label = [], sconfidence = None\<rparr>"
  by (simp add: toSection_def Let_def fl_time_15_44100 fl_sample_15_44100)

text \<open>
  C3. The claim has the last section end at the buffer's length, and the code says
  \<^verbatim>\<open>Always end at the end\<close> where it appends the last boundary. What it appends is the last
  frame index \<open>n - 1\<close>, and the end of a section is the sample index computed from the time
  at which its end frame starts. A silent buffer of 5120 samples at 44100 Hz has six
  analysed frames; its only section ends at sample \<open>5 * 512 = 2560\<close>, the start of the last
  analysed frame, not at the buffer length 5120. The first section does start at sample 0
  and the sections are contiguous (\<open>structure_sections_contiguous\<close>).
\<close>

theorem last_section_ends_before_buffer_end:
  "detectSongStructure (readyCore stubEssentia) (createMonoBuffer (replicate 5120 0) 44100 None)
     defaultStructureOptions
   = ([1/2, 0.6, 0.8, 0.9, 0.95, 1],
      Inr \<lparr>boundaries =
             [\<lparr>startSample = 0, endSample = 2560, startTime = 0,
               endTime = 8365870328212949 / 144115188075855872,
               label = ''Intro 1'', sconfidence = Some 0\<rparr>],
           sbpm = Some 128\<rparr>)
   \<and> blength (createMonoBuffer (replicate 5120 0) 44100 None) = 5120
   \<and> (2560 :: int) \<noteq> 5120"
  using structure_run_silent_5120 by (simp add: createMonoBuffer_def)

text \<open>\<open>blockBuffer\<close> at 200 Hz, analysed with the fallback features.\<close>

lemma length_block [simp]: "t \<le> 7 \<Longrightarrow> length (block c t) = 512"
  by (simp add: block_def)

lemma length_blockBuffer: "length blockBuffer = 5120"
  by (simp add: blockBuffer_def)

lemma block_frame_split:
  "take 2048 blockBuffer = block 0 1 @ block 0 2 @ block 1 1 @ block 1 2"
  "take 2048 (drop 512 blockBuffer) = block 0 2 @ block 1 1 @ block 1 2 @ block 1 0"
  "take 2048 (drop 1024 blockBuffer) = block 1 1 @ block 1 2 @ block 1 0 @ block 0 2"
  "take 2048 (drop 1536 blockBuffer) = block 1 2 @ block 1 0 @ block 0 2 @ block 0 2"
  "take 2048 (drop 2048 blockBuffer) = block 1 0 @ block 0 2 @ block 0 2 @ block 0 3"
  "take 2048 (drop 2560 blockBuffer) = block 0 2 @ block 0 2 @ block 0 3 @ block 0 1"
  by (simp_all add: blockBuffer_def)

lemma sqrt_256: "sqrt (1 / 256) = 1 / 16"
  by (rule real_sqrt_unique) (simp_all add: power2_eq_square)

lemma block_frames:
  "frameFeatures throwingEssentia sr (take 2048 blockBuffer) = (chromaZ, 1/16)"
  "frameFeatures throwingEssentia sr (take 2048 (drop 512 blockBuffer)) = (chromaZ, 1/16)"
  "frameFeatures throwingEssentia sr (take 2048 (drop 1024 blockBuffer)) = (chromaA, 1/16)"
  "frameFeatures throwingEssentia sr (take 2048 (drop 1536 blockBuffer)) = (chromaA, 1/16)"
  "frameFeatures throwingEssentia sr (take 2048 (drop 2048 blockBuffer)) = (chromaA, 1/16)"
  "frameFeatures throwingEssentia sr (take 2048 (drop 2560 blockBuffer)) = (chromaZ, 1/16)"
  by (simp_all add: block_frame_split block_def frameFeatures_def throwingEssentia_def
        rmsEnergy_def upt_rec sum_list_replicate sqrt_256 nth_append chromaZ_def chromaA_def)

lemma block_features:
  "extractFeatures throwingEssentia 200 blockBuffer True
     = ([chromaZ, chromaZ, chromaA, chromaA, chromaA, chromaZ],
        [1/16, 1/16, 1/16, 1/16, 1/16, 1/16], [1/2])"
  by (simp add: extractFeatures_def extractFeaturesAt_def numFrames_div featureStep_def Let_def
        hopSize_def frameSize_def chunkSize_def length_blockBuffer block_frames upt_rec)

lemma block_similarity:
  "buildSimilarityMatrix [chromaZ, chromaZ, chromaA, chromaA, chromaA, chromaZ] = blockMatrix"
  by (simp add: buildSimilarityMatrix_def upt_rec cosine_chroma blockMatrix_def)

lemma block_novelty: "noveltyFunction blockMatrix 1 = [1, 4, 5, 4]"
  by (simp add: noveltyFunction_def noveltyAt_def blockMatrix_def upto_rec1)

lemma block_candidates: "candidateBoundaries blockMatrix 200 512 (128 / 5) 5 = [0, 3, 5]"
proof -
  have l: "length blockMatrix = 6" by (simp add: blockMatrix_def)
  have t: "calculateThreshold [1, 4, 5, 4] (3/10) = 43/10"
    by (simp add: calculateThreshold_def Let_def)
  show ?thesis
    by (simp add: candidateBoundaries_def Let_def l block_novelty t boundaryStep_def upt_rec)
qed

lemma block_merge: "mergeBoundaries [0, 3, 5] 8 = [0, 3, 5]" "mergeBoundaries [0, 3, 5] 1 = [0, 3]"
  by (simp_all add: mergeBoundaries.simps minGapIndex_def gapStep_def upt_rec)

lemma block_boundaries:
  "detectBoundaries blockMatrix e 200 512 (128 / 5) 8 5
     = [\<lparr>startSample = 0, endSample = 1536, startTime = 0,
         endTime = 1080863910568919 / 140737488355328,
         label = [], sconfidence = None\<rparr>,
        \<lparr>startSample = 1536, endSample = 2560,
         startTime = 1080863910568919 / 140737488355328,
         endTime = 3602879701896397 / 281474976710656,
         label = [], sconfidence = None\<rparr>]"
  "detectBoundaries blockMatrix e 200 512 (128 / 5) 1 5
     = [\<lparr>startSample = 0, endSample = 1536, startTime = 0,
         endTime = 1080863910568919 / 140737488355328,
         label = [], sconfidence = None\<rparr>]"
  by (simp_all add: detectBoundaries_def block_candidates block_merge toSections_def toSection_def
        Let_def upt_rec fl_time_3_200 fl_time_5_200 fl_sample_3_200 fl_sample_5_200)

lemma block_labels:
  "labelSections
     [\<lparr>startSample = 0, endSample = 1536, startTime = 0,
         endTime = 1080863910568919 / 140737488355328,
         label = [], sconfidence = None\<rparr>,
        \<lparr>startSample = 1536, endSample = 2560,
         startTime = 1080863910568919 / 140737488355328,
         endTime = 3602879701896397 / 281474976710656,
         label = [], sconfidence = None\<rparr>]
     [1/16, 1/16, 1/16, 1/16, 1/16, 1/16] (128 / 5)
   = [\<lparr>startSample = 0, endSample = 1536, startTime = 0,
         endTime = 1080863910568919 / 140737488355328,
         label = ''Intro 1'', sconfidence = Some 1\<rparr>,
        \<lparr>startSample = 1536, endSample = 2560,
         startTime = 1080863910568919 / 140737488355328,
         endTime = 3602879701896397 / 281474976710656,
         label = ''Break 2'', sconfidence = Some 0\<rparr>]"
  "labelSections
     [\<lparr>startSample = 0, endSample = 1536, startTime = 0,
         endTime = 1080863910568919 / 140737488355328,
         label = [], sconfidence = None\<rparr>]
     [1/16, 1/16, 1/16, 1/16, 1/16, 1/16] (128 / 5)
   = [\<lparr>startSample = 0, endSample = 1536, startTime = 0,
         endTime = 1080863910568919 / 140737488355328,
         label = ''Intro 1'', sconfidence = Some 1\<rparr>]"
  by (simp_all add: labelSections_def sectionEnergy_def sectionLabel_def Let_def showNat.simps
        digitChars_def upto_rec1 upt_rec)

lemma detectBPM_throwing:
  "detectBPM (readyCore throwingEssentia) (createMonoBuffer samples sr dur)
     = Inr \<lparr>bpm = 120, confidence = Some 0\<rparr>"
  by (simp add: detectBPM_def ensureInitialized_def readyCore_def throwingEssentia_def
        audioBufferToMono_def createMonoBuffer_def)

lemma block_buffer:
  "audioBufferToMono (createMonoBuffer blockBuffer 200 None) = Inr blockBuffer"
  "sampleRate (createMonoBuffer blockBuffer 200 None) = 200"
  "duration (createMonoBuffer blockBuffer 200 None) = 128 / 5"
  by (simp_all add: audioBufferToMono_def createMonoBuffer_def length_blockBuffer)

lemma block_features_at:
  "extractFeaturesAt (\<lambda>i. throwingEssentia) 200 blockBuffer True
     = ([chromaZ, chromaZ, chromaA, chromaA, chromaA, chromaZ],
        [1/16, 1/16, 1/16, 1/16, 1/16, 1/16], [1/2])"
  using block_features by (simp add: extractFeatures_def)

lemma structure_run_block:
  "detectSongStructure (readyCore throwingEssentia) (createMonoBuffer blockBuffer 200 None)
     defaultStructureOptions
   = ([1/2, 0.6, 0.8, 0.9, 0.95, 1],
      Inr \<lparr>boundaries =
             [\<lparr>startSample = 0, endSample = 1536, startTime = 0,
               endTime = 1080863910568919 / 140737488355328,
               label = ''Intro 1'', sconfidence = Some 1\<rparr>,
              \<lparr>startSample = 1536, endSample = 2560,
               startTime = 1080863910568919 / 140737488355328,
               endTime = 3602879701896397 / 281474976710656,
               label = ''Break 2'', sconfidence = Some 0\<rparr>],
           sbpm = Some 120\<rparr>)"
  unfolding detectSongStructure_def detectSongStructureDuring_def
  by (simp add: ready_core block_buffer defaultStructureOptions_def cleanedBefore_def
        block_features_at block_similarity block_boundaries block_labels detectBPM_throwing
        report_def hopSize_def Let_def)

lemma structure_run_block_budget:
  "detectSongStructure (readyCore throwingEssentia) (createMonoBuffer blockBuffer 200 None)
     \<lparr>maxSections = Some 1, minSectionDuration = None, onProgress = True\<rparr>
   = ([1/2, 0.6, 0.8, 0.9, 0.95, 1],
      Inr \<lparr>boundaries =
             [\<lparr>startSample = 0, endSample = 1536, startTime = 0,
               endTime = 1080863910568919 / 140737488355328,
               label = ''Intro 1'', sconfidence = Some 1\<rparr>],
           sbpm = Some 120\<rparr>)"
  unfolding detectSongStructure_def detectSongStructureDuring_def
  by (simp add: ready_core block_buffer cleanedBefore_def
        block_features_at block_similarity block_boundaries block_labels detectBPM_throwing
        report_def hopSize_def Let_def)

lemma structure_budget:
  assumes run: "detectSongStructure core audioBuffer options = (progress, Inr result)"
    and m: "0 \<le> (case maxSections options of None \<Rightarrow> 8 | Some m \<Rightarrow> m)"
  shows "int (length (boundaries result)) \<le> (case maxSections options of None \<Rightarrow> 8 | Some m \<Rightarrow> m)"
proof -
  let ?maxS = "case maxSections options of None \<Rightarrow> 8 | Some m \<Rightarrow> m"
  from detectSongStructure_result[OF run] obtain audioVector c e p where
    bs: "boundaries result =
      labelSections (detectBoundaries (buildSimilarityMatrix c) e (sampleRate audioBuffer) hopSize
        (duration audioBuffer) ?maxS
        (case minSectionDuration options of None \<Rightarrow> 5 | Some d \<Rightarrow> d)) e (duration audioBuffer)"
    by blast
  let ?cands = "candidateBoundaries (buildSimilarityMatrix c) (sampleRate audioBuffer) hopSize
        (duration audioBuffer) (case minSectionDuration options of None \<Rightarrow> 5 | Some d \<Rightarrow> d)"
  have "?cands \<noteq> []" by (simp add: candidateBoundaries_def Let_def)
  from mergeBoundaries_budget[OF m this]
  have "int (length (mergeBoundaries ?cands ?maxS)) \<le> ?maxS + 1" .
  with m have "int (length (mergeBoundaries ?cands ?maxS) - 1) \<le> ?maxS" by linarith
  then show ?thesis unfolding bs by (simp add: detectBoundaries_def)
qed

text \<open>
  C4. The budget itself holds for a non-negative \<open>maxSections\<close> (\<open>structure_budget\<close>), and
  the boundary removed is the one that ends the smallest gap, the lowest such gap among equal
  ones (\<open>minGapIndex_least\<close>). But that boundary need not be an interior one: when the last
  gap is strictly the smallest, the loop removes the forced end boundary
  (\<open>mergeBoundaries_removes_end\<close>). For \<open>blockBuffer\<close> at 200 Hz the boundaries are the frames
  \<open>[0, 3, 5]\<close>; with \<open>maxSections = 1\<close> the loop finds the smallest gap at index 1 and removes
  the end boundary 5, not the interior boundary 3, so the only section returned is
  \<open>[0, 1536)\<close> and the samples from 1536 on belong to no section. (The end time is the double
  7.68.)
\<close>

theorem budget_merge_deletes_end_boundary:
  "candidateBoundaries blockMatrix 200 512 (128 / 5) 5 = [0, 3, 5]
   \<and> minGapIndex [0, 3, 5] = Some 1
   \<and> mergeBoundaries [0, 3, 5] 1 = [0, 3]
   \<and> detectSongStructure (readyCore throwingEssentia) (createMonoBuffer blockBuffer 200 None)
        \<lparr>maxSections = Some 1, minSectionDuration = None, onProgress = True\<rparr>
      = ([1/2, 0.6, 0.8, 0.9, 0.95, 1],
         Inr \<lparr>boundaries =
                [\<lparr>startSample = 0, endSample = 1536, startTime = 0,
                  endTime = 1080863910568919 / 140737488355328,
                  label = ''Intro 1'', sconfidence = Some 1\<rparr>],
              sbpm = Some 120\<rparr>)"
proof -
  have "minGapIndex [0, 3, 5] = Some 1"
    by (simp add: minGapIndex_def gapStep_def upt_rec)
  then show ?thesis
    using block_candidates block_merge(2) structure_run_block_budget by simp
qed

text \<open>
  Instances of C6: a call that rejects from inside the \<^verbatim>\<open>try\<close>, after a value reported
  from inside the frame loop, and a call that rejects at the initialisation check.
\<close>

theorem progress_sorted_and_complete_witness:
  "onProgress defaultStructureOptions
   \<and> ensureInitialized (readyCore stubEssentia) = Inr ()
   \<and> audioBufferToMono (createMonoBuffer (replicate 5120 0) 44100 None) = Inr (replicate 5120 0)
   \<and> detectSongStructureDuring (Some 5) (readyCore stubEssentia)
        (createMonoBuffer (replicate 5120 0) 44100 None) defaultStructureOptions
      = ([1/2, 0.6, 0.8, 0.9, 0.95, 1], Inl NotInitialized)
   \<and> sorted (fst (detectSongStructureDuring (Some 5) (readyCore stubEssentia)
        (createMonoBuffer (replicate 5120 0) 44100 None) defaultStructureOptions))
   \<and> last (fst (detectSongStructureDuring (Some 5) (readyCore stubEssentia)
        (createMonoBuffer (replicate 5120 0) 44100 None) defaultStructureOptions)) = 1
   \<and> detectSongStructureDuring None (readyCore stubEssentia)
        (createMonoBuffer (replicate 5120 0) 44100 None) defaultStructureOptions
      = ([1/2, 0.6, 0.8, 0.9, 0.95, 1],
         Inr \<lparr>boundaries =
                [\<lparr>startSample = 0, endSample = 2560, startTime = 0,
                  endTime = 8365870328212949 / 144115188075855872,
                  label = ''Intro 1'', sconfidence = Some 0\<rparr>],
              sbpm = Some 128\<rparr>)
   \<and> last (fst (detectSongStructureDuring None (readyCore stubEssentia)
        (createMonoBuffer (replicate 5120 0) 44100 None) defaultStructureOptions)) = 1
   \<and> ensureInitialized \<lparr>essentia = None, isInitialized = False\<rparr> \<noteq> Inr ()
   \<and> fst (detectSongStructureDuring None \<lparr>essentia = None, isInitialized = False\<rparr>
        (createMonoBuffer (replicate 5120 0) 44100 None) defaultStructureOptions) = []
   \<and> (\<exists>e. snd (detectSongStructureDuring None \<lparr>essentia = None, isInitialized = False\<rparr>
        (createMonoBuffer (replicate 5120 0) 44100 None) defaultStructureOptions) = Inl e)"
proof -
  let ?buf = "createMonoBuffer (replicate 5120 0) 44100 None"
  have o: "onProgress defaultStructureOptions" by (simp add: defaultStructureOptions_def)
  have u: "ensureInitialized \<lparr>essentia = None, isInitialized = False\<rparr> \<noteq> Inr ()"
    by (simp add: ensureInitialized_def)
  have r: "detectSongStructureDuring None (readyCore stubEssentia) ?buf defaultStructureOptions
      = ([1/2, 0.6, 0.8, 0.9, 0.95, 1],
         Inr \<lparr>boundaries =
                [\<lparr>startSample = 0, endSample = 2560, startTime = 0,
                  endTime = 8365870328212949 / 144115188075855872,
                  label = ''Intro 1'', sconfidence = Some 0\<rparr>],
              sbpm = Some 128\<rparr>)"
    using structure_run_silent_5120 by (simp add: detectSongStructure_def)
  from progress_sorted_and_complete[OF o, of "Some 5" "readyCore stubEssentia" ?buf]
    progress_sorted_and_complete[OF o, of None "readyCore stubEssentia" ?buf]
    progress_sorted_and_complete[OF o, of None "\<lparr>essentia = None, isInitialized = False\<rparr>" ?buf]
    o u r ready_core(1)[of stubEssentia] silent_buffer(1) structure_run_silent_cleanup
  show ?thesis by simp
qed

subsection \<open>Section labels\<close>

lemma sqrt_quarter: "sqrt (1 / 4) = 1 / 2"
  by (rule real_sqrt_unique) (simp_all add: power2_eq_square)

lemma step_frames:
  "frameFeatures stubEssentia sr (take 2048 stepBuffer) = (chromaZ, 0)"
  "frameFeatures stubEssentia sr (take 2048 (drop 512 stepBuffer)) = (chromaZ, 1/2)"
  "frameFeatures stubEssentia sr (take 2048 (drop 1024 stepBuffer)) = (chromaZ, 1/2)"
  "frameFeatures stubEssentia sr (take 2048 (drop 1536 stepBuffer)) = (chromaZ, 1/2)"
  by (simp_all add: stepBuffer_def frameFeatures_def stubEssentia_def rmsEnergy_def
        sum_list_replicate sqrt_quarter chromaZ_def replicate_12)

lemma step_features:
  "extractFeatures stubEssentia 44100 stepBuffer True
     = ([chromaZ, chromaZ, chromaZ, chromaZ], [0, 1/2, 1/2, 1/2], [])"
proof -
  have l: "length stepBuffer = 4096" by (simp add: stepBuffer_def)
  show ?thesis
    by (simp add: extractFeatures_def extractFeaturesAt_def numFrames_div featureStep_def Let_def hopSize_def
          frameSize_def chunkSize_def l step_frames upt_rec)
qed

lemma step_boundaries:
  "detectBoundaries (buildSimilarityMatrix [chromaZ, chromaZ, chromaZ, chromaZ]) e 44100 512 d 8 5
     = [\<lparr>startSample = 0, endSample = 1536, startTime = 0, endTime = 5019522196927769 / 144115188075855872,
         label = [], sconfidence = None\<rparr>]"
  by (simp add: detectBoundaries_def candidateBoundaries_def noveltyFunction_def Let_def
        mergeBoundaries.simps toSections_def toSection_def cosine_chroma
        fl_time_3_44100 fl_sample_3_44100)

lemma step_labels:
  "labelSections [\<lparr>startSample = 0, endSample = 1536, startTime = 0, endTime = 5019522196927769 / 144115188075855872,
         label = [], sconfidence = None\<rparr>] [0, 1/2, 1/2, 1/2] d
   = [\<lparr>startSample = 0, endSample = 1536, startTime = 0, endTime = 5019522196927769 / 144115188075855872,
         label = ''Intro 1'', sconfidence = Some 0\<rparr>]"
  by (simp add: labelSections_def sectionEnergy_def sectionLabel_def Let_def showNat.simps
        digitChars_def upto_rec1)

text \<open>
  C9. The decision order of the labels and the 1-based index are as the claim says
  (\<open>sectionLabel\<close>, \<open>labelSections\<close>). The confidence is not the normalised mean energy of the
  section's own frames: \<^verbatim>\<open>labelSections\<close> takes the frames from \<open>\<lfloor>startTime * 44.1\<rfloor>\<close> to
  \<open>\<lfloor>endTime * 44.1\<rfloor>\<close>, and 44.1 is not the number of frames per second (at 44100 Hz and a hop
  of 512 there are about 86.1). For \<open>stepBuffer\<close> at 44100 Hz the energy profile is
  \<open>[0, 1/2, 1/2, 1/2]\<close> and the only section covers the frames 0, 1 and 2; the code averages
  frame 0 alone, finds the energy 0 and returns the confidence 0, where the mean over the
  section's frames is 1/3 and the normalised energy is 1. (The end time is the double
  nearest to \<open>1536 / 44100\<close>.)
\<close>

theorem section_energy_wrong_frames:
  "detectSongStructure (readyCore stubEssentia) (createMonoBuffer stepBuffer 44100 None)
     defaultStructureOptions
   = ([0.6, 0.8, 0.9, 0.95, 1],
      Inr \<lparr>boundaries =
             [\<lparr>startSample = 0, endSample = 1536, startTime = 0, endTime = 5019522196927769 / 144115188075855872,
               label = ''Intro 1'', sconfidence = Some 0\<rparr>],
           sbpm = Some 128\<rparr>)
   \<and> fst (snd (extractFeatures stubEssentia 44100 stepBuffer True)) = [0, 1/2, 1/2, 1/2]
   \<and> sectionEnergy [0, 1/2, 1/2, 1/2]
        \<lparr>startSample = 0, endSample = 1536, startTime = 0, endTime = 5019522196927769 / 144115188075855872,
         label = [], sconfidence = None\<rparr> = 0
   \<and> spec_sectionEnergy [0, 1/2, 1/2, 1/2] 512
        \<lparr>startSample = 0, endSample = 1536, startTime = 0, endTime = 5019522196927769 / 144115188075855872,
         label = [], sconfidence = None\<rparr> = 1 / 3
   \<and> spec_confidence [0, 1/2, 1/2, 1/2] 512
        [\<lparr>startSample = 0, endSample = 1536, startTime = 0, endTime = 5019522196927769 / 144115188075855872,
          label = [], sconfidence = None\<rparr>] 0 = 1"
proof -
  have m: "audioBufferToMono (createMonoBuffer stepBuffer 44100 None) = Inr stepBuffer"
    by (simp add: audioBufferToMono_def createMonoBuffer_def)
  have i: "ensureInitialized (readyCore stubEssentia) = Inr ()"
    by (simp add: ensureInitialized_def readyCore_def)
  have f: "sampleRate (createMonoBuffer stepBuffer 44100 None) = 44100"
    by (simp_all add: createMonoBuffer_def)
  have e: "the (essentia (readyCore stubEssentia)) = stubEssentia" by (simp add: readyCore_def)
  have run: "detectSongStructure (readyCore stubEssentia) (createMonoBuffer stepBuffer 44100 None)
     defaultStructureOptions
   = ([0.6, 0.8, 0.9, 0.95, 1],
      Inr \<lparr>boundaries =
             [\<lparr>startSample = 0, endSample = 1536, startTime = 0, endTime = 5019522196927769 / 144115188075855872,
               label = ''Intro 1'', sconfidence = Some 0\<rparr>],
           sbpm = Some 128\<rparr>)"
    unfolding detectSongStructure_def detectSongStructureDuring_def
    by (simp add: i m f e defaultStructureOptions_def cleanedBefore_def
          step_features[unfolded extractFeatures_def] step_boundaries step_labels
          detectBPM_stub report_def hopSize_def Let_def)
  have c: "sectionEnergy [0, 1/2, 1/2, 1/2]
        \<lparr>startSample = 0, endSample = 1536, startTime = 0, endTime = 5019522196927769 / 144115188075855872,
         label = [], sconfidence = None\<rparr> = 0"
    by (simp add: sectionEnergy_def Let_def upto_rec1)
  have s: "spec_sectionEnergy [0, 1/2, 1/2, 1/2] 512
        \<lparr>startSample = 0, endSample = 1536, startTime = 0, endTime = 5019522196927769 / 144115188075855872,
         label = [], sconfidence = None\<rparr> = 1 / 3"
    by (simp add: spec_sectionEnergy_def Let_def upt_rec)
  have sc: "spec_confidence [0, 1/2, 1/2, 1/2] 512
        [\<lparr>startSample = 0, endSample = 1536, startTime = 0, endTime = 5019522196927769 / 144115188075855872,
          label = [], sconfidence = None\<rparr>] 0 = 1"
    by (simp add: spec_confidence_def spec_sectionEnergy_def Let_def upt_rec)
  from run c s sc show ?thesis by (simp add: step_features)
qed

end
